theory Spec2Isabelle
  imports Complex_Main "HOL-Library.Log_Nat"
begin

section \<open>Numbers\<close>

text \<open>
  A JavaScript number that holds a rate: a double, with its finite values as the
  rationals they are, or one of the three values that are not finite. The integer
  metrics and their sums are kept as integers: the metrics are database integers, and
  sums of them below \<open>2^53\<close> are exact.
\<close>

datatype number = Num rat | NaN | PosInfinity | NegInfinity

text \<open>
  Rounding to the nearest double, ties to even, for a value in the range of the normal
  doubles: \<open>binaryExponent x\<close> is the \<open>e\<close> with \<open>2^e \<le> x < 2^(e+1)\<close> for a positive
  \<open>x\<close>, and the 53 significant bits end at \<open>2^(e-52)\<close>. A quotient of two positive
  integers below \<open>2^53\<close>, and 100 times it, are in that range.
\<close>

definition roundHalfEven :: "rat \<Rightarrow> int" where
  "roundHalfEven q =
     (let f = \<lfloor>q\<rfloor>; d = q - of_int f
      in if d < 1 / 2 then f else if d > 1 / 2 then f + 1 else if even f then f else f + 1)"

definition binaryExponent :: "rat \<Rightarrow> int" where
  "binaryExponent x =
     (let (p, q) = quotient_of x; d = bitlen p - bitlen q
      in if 2 powi d \<le> x then d else d - 1)"

definition roundDouble :: "rat \<Rightarrow> rat" where
  "roundDouble x =
     (if x = 0 then 0
      else (let u = 2 powi (binaryExponent \<bar>x\<bar> - 52)
            in of_int (roundHalfEven (x / u)) * u))"

text \<open>
  \<^verbatim>\<open>a / b\<close> on two integer-valued numbers: a zero divisor gives \<^verbatim>\<open>NaN\<close> for \<^verbatim>\<open>0 / 0\<close>
  and an infinity otherwise (the sums start from \<^verbatim>\<open>0\<close> and are never the negative zero).
  \<^verbatim>\<open>x * 100\<close> keeps a value that is not finite.
\<close>

definition divideNumbers :: "int \<Rightarrow> int \<Rightarrow> number" where
  "divideNumbers a b =
     (if b = 0 then (if a = 0 then NaN else if a > 0 then PosInfinity else NegInfinity)
      else Num (roundDouble (of_int a / of_int b)))"

fun timesHundred :: "number \<Rightarrow> number" where
  "timesHundred (Num r) = Num (roundDouble (r * 100))"
| "timesHundred NaN = NaN"
| "timesHundred PosInfinity = PosInfinity"
| "timesHundred NegInfinity = NegInfinity"

section \<open>Data model\<close>

text \<open>
  The entity types come from the shared schema, which is not among the sources; the
  records below carry the fields that \<^verbatim>\<open>ad-scheduler.ts\<close> and \<^verbatim>\<open>storage.ts\<close> read or
  write. Identifiers are serial numbers, timestamps are milliseconds since the epoch,
  platform and status are the strings the code compares with \<^verbatim>\<open>===\<close>.
\<close>

record Campaign =
  campaign_id :: nat
  campaign_name :: string
  messageTemplate :: string
  formUrl :: "string option"
  campaign_status :: string

record AdPost =
  post_id :: nat
  campaignId :: nat
  platform :: string
  postContent :: string
  postTime :: int
  status :: string
  location :: "string option"
  impressions :: int
  clicks :: int
  leadsCaptured :: int
  createdAt :: int
  updatedAt :: int

text \<open>\<^verbatim>\<open>AdPostInsert\<close>: what \<^verbatim>\<open>createAdPost\<close> receives. The columns with a default are optional.\<close>

record AdPostInsert =
  campaignId_ins :: nat
  platform_ins :: string
  postContent_ins :: string
  postTime_ins :: int
  status_ins :: "string option"
  location_ins :: "string option"
  impressions_ins :: "int option"
  clicks_ins :: "int option"
  leadsCaptured_ins :: "int option"

text \<open>\<^verbatim>\<open>Partial<AdPostInsert>\<close>: what \<^verbatim>\<open>updateAdPost\<close> receives; an absent key is \<open>None\<close>.\<close>

record AdPostUpdate =
  campaignId_upd :: "nat option"
  platform_upd :: "string option"
  postContent_upd :: "string option"
  postTime_upd :: "int option"
  status_upd :: "string option"
  location_upd :: "string option"
  impressions_upd :: "int option"
  clicks_upd :: "int option"
  leadsCaptured_upd :: "int option"

record AdPostAnalytics =
  impressions_pa :: int
  clicks_pa :: int
  leadsCaptured_pa :: int
  ctr_pa :: number
  conversionRate_pa :: number

record PlatformBreakdown =
  facebook :: AdPostAnalytics
  instagram :: AdPostAnalytics
  twitter :: AdPostAnalytics
  whatsapp :: AdPostAnalytics
  telegram :: AdPostAnalytics

record CampaignPerformance =
  campaign :: Campaign
  totalPosts :: nat
  totalImpressions :: int
  totalClicks :: int
  totalLeads :: int
  ctr :: number
  conversionRate :: number
  platformBreakdown :: PlatformBreakdown

text \<open>
  What a rejected promise carries: the failure raised by the database driver, or a
  JavaScript \<^verbatim>\<open>Error\<close> with its message.
\<close>

datatype error = DbFailure | JsError string

section \<open>Content generator (\<^verbatim>\<open>ad-scheduler.ts\<close>, \<^verbatim>\<open>generatePostContent\<close>)\<close>

text \<open>
  The \<^verbatim>\<open>switch\<close> has no default branch: a platform outside the five leaves the template as
  it is. \<^verbatim>\<open>if (campaign.formUrl)\<close> is false for \<^verbatim>\<open>null\<close> and for the empty string.
\<close>

definition generatePostContent :: "Campaign \<Rightarrow> string \<Rightarrow> string" where
  "generatePostContent c p =
     (let content = messageTemplate c;
          content =
            (if p = ''facebook'' then
               content @ ''\<newline>\<newline>#StudentOpportunity #CareerGrowth''
             else if p = ''instagram'' then
               content @ ''\<newline>\<newline>.\<newline>.\<newline>.\<newline>#StudentOpportunity #CareerGrowth #StudentJobs #InternshipOpportunity''
             else if p = ''twitter'' then
               (let content = (if length content > 240 then take 237 content @ ''...'' else content)
                in content @ ''\<newline>\<newline>#StudentJobs'')
             else if p = ''whatsapp'' then
               ''*'' @ campaign_name c @ ''*\<newline>\<newline>'' @ content
             else if p = ''telegram'' then
               ''<b>'' @ campaign_name c @ ''</b>\<newline>\<newline>'' @ content
             else content)
      in case formUrl c of
           None \<Rightarrow> content
         | Some u \<Rightarrow> if u = [] then content else content @ ''\<newline>\<newline>Apply now: '' @ u)"

text \<open>The call-to-action line that ends the content, empty when there is no form URL.\<close>

definition ctaLine :: "Campaign \<Rightarrow> string" where
  "ctaLine c = (case formUrl c of None \<Rightarrow> [] | Some u \<Rightarrow> if u = [] then [] else ''\<newline>\<newline>Apply now: '' @ u)"

section \<open>The world outside the functions\<close>

text \<open>
  The time zone of the process, as ECMAScript reads it: \<open>utcOffsetAt z t\<close> is the offset
  of local time from UTC, in milliseconds, at the instant \<open>t\<close> (\<^verbatim>\<open>LocalTZA(t, true)\<close>), and
  \<open>localOffsetAt z l\<close> the offset to subtract from the local time value \<open>l\<close> to get the
  instant (\<^verbatim>\<open>LocalTZA(l, false)\<close>). In a zone with daylight saving the two change at the
  transitions.
\<close>

record Zone =
  utcOffsetAt :: "int \<Rightarrow> int"
  localOffsetAt :: "int \<Rightarrow> int"

text \<open>
  Everything the functions read or change besides their arguments: the two tables, the
  serial counter of the posts table, the console, the time zone, and the sources of
  nondeterminism with the number of readings taken so far. \<open>clock w k\<close> is the \<open>k\<close>-th
  reading of the wall clock, \<open>random w k\<close> the \<open>k\<close>-th result of \<^verbatim>\<open>Math.random()\<close>, and
  \<open>dbFails w k\<close> says whether the \<open>k\<close>-th statement sent to the database fails.
\<close>

record World =
  campaigns :: "Campaign list"
  adPosts :: "AdPost list"
  nextPostId :: nat
  console :: "string list"
  dbFails :: "nat \<Rightarrow> bool"
  dbCalls :: nat
  clock :: "nat \<Rightarrow> int"
  clockReads :: nat
  random :: "nat \<Rightarrow> real"
  randomReads :: nat
  zone :: Zone

text \<open>\<^verbatim>\<open>new Date()\<close>\<close>

definition newDate :: "World \<Rightarrow> int \<times> World" where
  "newDate w = (clock w (clockReads w), w\<lparr>clockReads := Suc (clockReads w)\<rparr>)"

text \<open>\<^verbatim>\<open>Math.random()\<close>\<close>

definition mathRandom :: "World \<Rightarrow> real \<times> World" where
  "mathRandom w = (random w (randomReads w), w\<lparr>randomReads := Suc (randomReads w)\<rparr>)"

text \<open>\<^verbatim>\<open>console.log\<close> and \<^verbatim>\<open>console.error\<close>: the message, without the error object.\<close>

definition consoleLog :: "string \<Rightarrow> World \<Rightarrow> World" where
  "consoleLog msg w = w\<lparr>console := console w @ [msg]\<rparr>"

text \<open>One statement sent to the database: whether it failed.\<close>

definition dbStatement :: "World \<Rightarrow> bool \<times> World" where
  "dbStatement w = (dbFails w (dbCalls w), w\<lparr>dbCalls := Suc (dbCalls w)\<rparr>)"

section \<open>Dates\<close>

definition msPerHour :: int where "msPerHour = 3600000"
definition msPerDay :: int where "msPerDay = 86400000"

text \<open>date-fns \<^verbatim>\<open>addHours\<close>, \<^verbatim>\<open>isAfter\<close>, \<^verbatim>\<open>isBefore\<close>; a comparison with the Invalid Date is false.\<close>

definition addHours :: "int \<Rightarrow> int \<Rightarrow> int" where
  "addHours d n = d + n * msPerHour"

definition isAfter :: "int option \<Rightarrow> int \<Rightarrow> bool" where
  "isAfter d c = (case d of None \<Rightarrow> False | Some t \<Rightarrow> t > c)"

definition isBefore :: "int option \<Rightarrow> int \<Rightarrow> bool" where
  "isBefore d c = (case d of None \<Rightarrow> False | Some t \<Rightarrow> t < c)"

text \<open>
  \<^verbatim>\<open>parseISO(post.postTime.toString())\<close> on the time of a stored post. The column value
  is a \<^verbatim>\<open>Date\<close> (\<^verbatim>\<open>createAdPost\<close> is given one), and \<^verbatim>\<open>Date.prototype.toString\<close> renders
  it as \<^verbatim>\<open>Tue Nov 03 2026 09:00:00 GMT+0530 (India Standard Time)\<close>. That is not an
  ISO 8601 string: date-fns \<^verbatim>\<open>parseISO\<close> splits its argument at \<^verbatim>\<open>T\<close> and at the space,
  finds more than two parts and returns the Invalid Date, here \<open>None\<close>, whatever the
  date is.
\<close>

definition readBack :: "int \<Rightarrow> int option" where
  "readBack d = None"

text \<open>
  \<^verbatim>\<open>Date.prototype.getHours\<close> and \<^verbatim>\<open>setHours(h, 0, 0, 0)\<close>, as ECMAScript defines them:
  the hour is read from the local time of the instant; the new instant is the local day
  of the old one with the time within the day replaced, taken back to UTC.
\<close>

definition localTime :: "Zone \<Rightarrow> int \<Rightarrow> int" where
  "localTime z d = d + utcOffsetAt z d"

definition localDay :: "Zone \<Rightarrow> int \<Rightarrow> int" where
  "localDay z d = localTime z d div msPerDay"

definition msOfLocalDay :: "Zone \<Rightarrow> int \<Rightarrow> int" where
  "msOfLocalDay z d = localTime z d mod msPerDay"

definition getHours :: "Zone \<Rightarrow> int \<Rightarrow> int" where
  "getHours z d = msOfLocalDay z d div msPerHour"

definition setHours :: "Zone \<Rightarrow> int \<Rightarrow> int \<Rightarrow> int" where
  "setHours z d h =
     (let l = localDay z d * msPerDay + h * msPerHour
      in l - localOffsetAt z l)"

section \<open>Storage (\<^verbatim>\<open>storage.ts\<close>)\<close>

text \<open>
  Every storage function is asynchronous: it returns the value its promise resolves to,
  or \<open>Inl\<close> the value it rejects with, and the world after it.
\<close>

text \<open>
  \<^verbatim>\<open>getCampaignById\<close>: the first row with the id, \<^verbatim>\<open>null\<close> when there is none. The statement
  is awaited inside \<^verbatim>\<open>try\<close>, so a failure is logged and becomes \<^verbatim>\<open>null\<close>.
\<close>

definition getCampaignById :: "World \<Rightarrow> nat \<Rightarrow> (error + Campaign option) \<times> World" where
  "getCampaignById w i =
     (let (failed, w1) = dbStatement w
      in if failed then (Inr None, consoleLog ''Error getting campaign:'' w1)
         else (case filter (\<lambda>c. campaign_id c = i) (campaigns w1) of
                 [] \<Rightarrow> (Inr None, w1)
               | c # _ \<Rightarrow> (Inr (Some c), w1)))"

text \<open>
  \<^verbatim>\<open>getAllAdPosts\<close>: \<^verbatim>\<open>if (campaignId)\<close> is false for an absent argument and for 0,
  and then all posts are selected. The query is returned without \<^verbatim>\<open>await\<close>, so its
  rejection passes the \<^verbatim>\<open>try\<close> block by and reaches the caller; the \<^verbatim>\<open>catch\<close>
  branch with its empty list is not run.
\<close>

definition getAllAdPosts :: "World \<Rightarrow> nat option \<Rightarrow> (error + AdPost list) \<times> World" where
  "getAllAdPosts w cid =
     (let (failed, w1) = dbStatement w
      in if failed then (Inl DbFailure, w1)
         else (Inr (sort_key (\<lambda>p. - createdAt p)
                      (case cid of
                         None \<Rightarrow> adPosts w1
                       | Some i \<Rightarrow> if i \<noteq> 0 then filter (\<lambda>p. campaignId p = i) (adPosts w1)
                                  else adPosts w1)), w1))"

text \<open>
  Modelled from the spec: the defaults of the columns that \<^verbatim>\<open>createAdPost\<close> is not given
  (the table declaration is in the shared schema, which is not among the sources). A post
  is created in status scheduled with zero metrics; the timestamps are the time of the
  insert.
\<close>

definition insertedRow :: "nat \<Rightarrow> int \<Rightarrow> AdPostInsert \<Rightarrow> AdPost" where
  "insertedRow i t a =
     \<lparr>post_id = i, campaignId = campaignId_ins a, platform = platform_ins a,
      postContent = postContent_ins a, postTime = postTime_ins a,
      status = (case status_ins a of None \<Rightarrow> ''scheduled'' | Some s \<Rightarrow> s),
      location = location_ins a,
      impressions = (case impressions_ins a of None \<Rightarrow> 0 | Some n \<Rightarrow> n),
      clicks = (case clicks_ins a of None \<Rightarrow> 0 | Some n \<Rightarrow> n),
      leadsCaptured = (case leadsCaptured_ins a of None \<Rightarrow> 0 | Some n \<Rightarrow> n),
      createdAt = t, updatedAt = t\<rparr>"

text \<open>
  \<^verbatim>\<open>createAdPost\<close>: a failed insert is logged and thrown again as a new \<^verbatim>\<open>Error\<close>. The
  new row gets the next serial id; the database's own clock stamps it.
\<close>

definition createAdPost :: "World \<Rightarrow> AdPostInsert \<Rightarrow> (error + AdPost) \<times> World" where
  "createAdPost w a =
     (let (failed, w1) = dbStatement w
      in if failed then
           (Inl (JsError ''Failed to create ad post''), consoleLog ''Error creating ad post:'' w1)
         else
           (let (t, w2) = newDate w1;
                row = insertedRow (nextPostId w2) t a
            in (Inr row, w2\<lparr>adPosts := adPosts w2 @ [row], nextPostId := Suc (nextPostId w2)\<rparr>)))"

text \<open>\<^verbatim>\<open>.set({ ...data, updatedAt: new Date() })\<close> on one row.\<close>

definition applyUpdate :: "AdPostUpdate \<Rightarrow> int \<Rightarrow> AdPost \<Rightarrow> AdPost" where
  "applyUpdate d t p =
     p\<lparr>campaignId := (case campaignId_upd d of None \<Rightarrow> campaignId p | Some v \<Rightarrow> v),
       platform := (case platform_upd d of None \<Rightarrow> platform p | Some v \<Rightarrow> v),
       postContent := (case postContent_upd d of None \<Rightarrow> postContent p | Some v \<Rightarrow> v),
       postTime := (case postTime_upd d of None \<Rightarrow> postTime p | Some v \<Rightarrow> v),
       status := (case status_upd d of None \<Rightarrow> status p | Some v \<Rightarrow> v),
       location := (case location_upd d of None \<Rightarrow> location p | Some v \<Rightarrow> Some v),
       impressions := (case impressions_upd d of None \<Rightarrow> impressions p | Some v \<Rightarrow> v),
       clicks := (case clicks_upd d of None \<Rightarrow> clicks p | Some v \<Rightarrow> v),
       leadsCaptured := (case leadsCaptured_upd d of None \<Rightarrow> leadsCaptured p | Some v \<Rightarrow> v),
       updatedAt := t\<rparr>"

text \<open>
  \<^verbatim>\<open>updateAdPost\<close>: the rows with the id are updated and returned; the result is the first
  of them, \<^verbatim>\<open>null\<close> when there is none. A failed statement is logged and becomes \<^verbatim>\<open>null\<close>
  as well. The date is taken before the statement is sent.
\<close>

definition updateAdPost :: "World \<Rightarrow> nat \<Rightarrow> AdPostUpdate \<Rightarrow> (error + AdPost option) \<times> World" where
  "updateAdPost w i d =
     (let (t, w1) = newDate w;
          (failed, w2) = dbStatement w1
      in if failed then (Inr None, consoleLog ''Error updating ad post:'' w2)
         else
           (let rows = map (\<lambda>p. if post_id p = i then applyUpdate d t p else p) (adPosts w2)
            in (Inr (case filter (\<lambda>p. post_id p = i) rows of [] \<Rightarrow> None | r # _ \<Rightarrow> Some r),
                w2\<lparr>adPosts := rows\<rparr>)))"

text \<open>
  Modelled from the spec: \<^verbatim>\<open>storage.getActiveCampaigns\<close> and \<^verbatim>\<open>storage.getCampaignPosts\<close>,
  which \<^verbatim>\<open>checkAndSchedulePosts\<close> calls and \<^verbatim>\<open>storage.ts\<close> does not define. They list the
  campaigns in status active, and the posts of a campaign id in any status; a failure of
  the store reaches the caller.
\<close>

definition getActiveCampaigns :: "World \<Rightarrow> (error + Campaign list) \<times> World" where
  "getActiveCampaigns w =
     (let (failed, w1) = dbStatement w
      in if failed then (Inl DbFailure, w1)
         else (Inr (filter (\<lambda>c. campaign_status c = ''active'') (campaigns w1)), w1))"

definition getCampaignPosts :: "World \<Rightarrow> nat \<Rightarrow> (error + AdPost list) \<times> World" where
  "getCampaignPosts w i =
     (let (failed, w1) = dbStatement w
      in if failed then (Inl DbFailure, w1)
         else (Inr (filter (\<lambda>p. campaignId p = i) (adPosts w1)), w1))"

section \<open>Scheduling decision engine (\<^verbatim>\<open>ad-scheduler.ts\<close>, \<^verbatim>\<open>checkAndSchedulePosts\<close>)\<close>

definition platforms :: "string list" where
  "platforms = [''facebook'', ''instagram'', ''twitter'', ''whatsapp'', ''telegram'']"

text \<open>The posts of the platform that the filter keeps: after \<open>now\<close> and before \<open>tomorrow\<close>.\<close>

definition scheduledPosts :: "AdPost list \<Rightarrow> string \<Rightarrow> int \<Rightarrow> AdPost list" where
  "scheduledPosts existingPosts p now =
     filter (\<lambda>post. platform post = p
               \<and> isAfter (readBack (postTime post)) now
               \<and> isBefore (readBack (postTime post)) (addHours now 24)) existingPosts"

text \<open>The time of the new post, from a second reading \<open>d\<close> of the clock.\<close>

definition computePostTime :: "Zone \<Rightarrow> int \<Rightarrow> int" where
  "computePostTime z d =
     (if getHours z d < 9 then setHours z d 9
      else if getHours z d \<ge> 18 then setHours z (addHours d 24) 9
      else setHours z d (getHours z d + 1))"

text \<open>The body of the loop over the platforms.\<close>

definition platformStep :: "Campaign \<Rightarrow> AdPost list \<Rightarrow> string \<Rightarrow> World \<Rightarrow> (error + unit) \<times> World" where
  "platformStep c existingPosts p w =
     (let (now, w1) = newDate w
      in if length (scheduledPosts existingPosts p now) = 0 then
           (let (d, w2) = newDate w1;
                content = generatePostContent c p
            in case createAdPost w2
                    \<lparr>campaignId_ins = campaign_id c, platform_ins = p, postContent_ins = content,
                     postTime_ins = computePostTime (zone w2) d,
                     status_ins = Some ''scheduled'', location_ins = Some ''All India'',
                     impressions_ins = None, clicks_ins = None, leadsCaptured_ins = None\<rparr> of
                 (Inl e, w3) \<Rightarrow> (Inl e, w3)
               | (Inr _, w3) \<Rightarrow> (Inr (), w3))
         else (Inr (), w1))"

fun platformLoop :: "Campaign \<Rightarrow> AdPost list \<Rightarrow> string list \<Rightarrow> World \<Rightarrow> (error + unit) \<times> World" where
  "platformLoop c existingPosts [] w = (Inr (), w)"
| "platformLoop c existingPosts (p # ps) w =
     (case platformStep c existingPosts p w of
        (Inl e, w1) \<Rightarrow> (Inl e, w1)
      | (Inr _, w1) \<Rightarrow> platformLoop c existingPosts ps w1)"

fun campaignLoop :: "Campaign list \<Rightarrow> World \<Rightarrow> (error + unit) \<times> World" where
  "campaignLoop [] w = (Inr (), w)"
| "campaignLoop (c # cs) w =
     (case getCampaignPosts w (campaign_id c) of
        (Inl e, w1) \<Rightarrow> (Inl e, w1)
      | (Inr existingPosts, w1) \<Rightarrow>
          (case platformLoop c existingPosts platforms w1 of
             (Inl e, w2) \<Rightarrow> (Inl e, w2)
           | (Inr _, w2) \<Rightarrow> campaignLoop cs w2))"

definition checkAndSchedulePosts :: "World \<Rightarrow> (error + unit) \<times> World" where
  "checkAndSchedulePosts w =
     (case getActiveCampaigns w of
        (Inl e, w1) \<Rightarrow> (Inl e, w1)
      | (Inr activeCampaigns, w1) \<Rightarrow> campaignLoop activeCampaigns w1)"

section \<open>Post execution simulator (\<^verbatim>\<open>runSocialPost\<close>, \<^verbatim>\<open>runAllSocialPosts\<close>)\<close>

definition noUpdate :: AdPostUpdate where
  "noUpdate = \<lparr>campaignId_upd = None, platform_upd = None, postContent_upd = None,
               postTime_upd = None, status_upd = None, location_upd = None,
               impressions_upd = None, clicks_upd = None, leadsCaptured_upd = None\<rparr>"

text \<open>
  \<^verbatim>\<open>runSocialPost\<close>: the payload is built first (three random numbers), then the update
  is awaited inside \<^verbatim>\<open>try\<close>. When the awaited call rejects, the \<^verbatim>\<open>catch\<close> branch logs
  and returns what a second update, to status failed, gives. The result is what
  \<^verbatim>\<open>updateAdPost\<close> resolved to, which may be \<^verbatim>\<open>null\<close>.
\<close>

definition runSocialPost :: "World \<Rightarrow> AdPost \<Rightarrow> (error + AdPost option) \<times> World" where
  "runSocialPost w post =
     (let w0 = consoleLog (''Posting to '' @ platform post @ '': '' @ postContent post) w;
          (r1, w1) = mathRandom w0;
          (r2, w2) = mathRandom w1;
          (r3, w3) = mathRandom w2
      in case updateAdPost w3 (post_id post)
                (noUpdate\<lparr>status_upd := Some ''posted'',
                          impressions_upd := Some (\<lfloor>r1 * 1000\<rfloor> + 200),
                          clicks_upd := Some (\<lfloor>r2 * 200\<rfloor> + 50),
                          leadsCaptured_upd := Some (\<lfloor>r3 * 50\<rfloor> + 5)\<rparr>) of
           (Inr updatedPost, w4) \<Rightarrow> (Inr updatedPost, w4)
         | (Inl e, w4) \<Rightarrow>
             updateAdPost (consoleLog (''Error posting to '' @ platform post @ '':'') w4)
               (post_id post) (noUpdate\<lparr>status_upd := Some ''failed''\<rparr>))"

text \<open>
  \<^verbatim>\<open>runAllSocialPosts\<close>: the loop pushes onto \<open>results\<close>; an entry is \<^verbatim>\<open>null\<close> when
  \<^verbatim>\<open>runSocialPost\<close> resolved to \<^verbatim>\<open>null\<close>.
\<close>

fun runAllLoop :: "AdPost list \<Rightarrow> AdPost option list \<Rightarrow> World \<Rightarrow> (error + AdPost option list) \<times> World" where
  "runAllLoop [] results w = (Inr results, w)"
| "runAllLoop (post # posts) results w =
     (if status post = ''scheduled'' then
        (case runSocialPost w post of
           (Inl e, w1) \<Rightarrow> (Inl e, w1)
         | (Inr updatedPost, w1) \<Rightarrow> runAllLoop posts (results @ [updatedPost]) w1)
      else runAllLoop posts (results @ [Some post]) w)"

definition runAllSocialPosts :: "World \<Rightarrow> AdPost list \<Rightarrow> (error + AdPost option list) \<times> World" where
  "runAllSocialPosts w posts = runAllLoop posts [] w"

section \<open>Performance aggregator (\<^verbatim>\<open>storage.ts\<close>, \<^verbatim>\<open>getCampaignPerformance\<close>)\<close>

definition zeroAnalytics :: AdPostAnalytics where
  "zeroAnalytics = \<lparr>impressions_pa = 0, clicks_pa = 0, leadsCaptured_pa = 0, ctr_pa = Num 0,
                    conversionRate_pa = Num 0\<rparr>"

definition zeroBreakdown :: PlatformBreakdown where
  "zeroBreakdown = \<lparr>facebook = zeroAnalytics, instagram = zeroAnalytics, twitter = zeroAnalytics,
                     whatsapp = zeroAnalytics, telegram = zeroAnalytics\<rparr>"

text \<open>The three \<^verbatim>\<open>+=\<close> on one bucket.\<close>

definition addMetrics :: "AdPost \<Rightarrow> AdPostAnalytics \<Rightarrow> AdPostAnalytics" where
  "addMetrics post a =
     a\<lparr>impressions_pa := impressions_pa a + impressions post,
       clicks_pa := clicks_pa a + clicks post,
       leadsCaptured_pa := leadsCaptured_pa a + leadsCaptured post\<rparr>"

text \<open>
  The body of \<^verbatim>\<open>posts.forEach\<close>: a platform that is not a key of the breakdown changes
  no bucket.
\<close>

definition accumulate :: "PlatformBreakdown \<Rightarrow> AdPost \<Rightarrow> PlatformBreakdown" where
  "accumulate b post =
     (if platform post = ''facebook'' then b\<lparr>facebook := addMetrics post (facebook b)\<rparr>
      else if platform post = ''instagram'' then b\<lparr>instagram := addMetrics post (instagram b)\<rparr>
      else if platform post = ''twitter'' then b\<lparr>twitter := addMetrics post (twitter b)\<rparr>
      else if platform post = ''whatsapp'' then b\<lparr>whatsapp := addMetrics post (whatsapp b)\<rparr>
      else if platform post = ''telegram'' then b\<lparr>telegram := addMetrics post (telegram b)\<rparr>
      else b)"

text \<open>The body of the loop over \<^verbatim>\<open>Object.keys(platformBreakdown)\<close>, on one bucket.\<close>

definition withRates :: "AdPostAnalytics \<Rightarrow> AdPostAnalytics" where
  "withRates a =
     a\<lparr>ctr_pa := (if impressions_pa a > 0
                  then timesHundred (divideNumbers (clicks_pa a) (impressions_pa a)) else Num 0),
       conversionRate_pa := (if clicks_pa a > 0
                  then timesHundred (divideNumbers (leadsCaptured_pa a) (clicks_pa a)) else Num 0)\<rparr>"

definition platformRates :: "PlatformBreakdown \<Rightarrow> PlatformBreakdown" where
  "platformRates b =
     \<lparr>facebook = withRates (facebook b), instagram = withRates (instagram b),
      twitter = withRates (twitter b), whatsapp = withRates (whatsapp b),
      telegram = withRates (telegram b)\<rparr>"

text \<open>
  \<^verbatim>\<open>getCampaignPerformance\<close>: the whole body is inside \<^verbatim>\<open>try\<close> and both reads are awaited,
  so a rejected read is logged and the result is \<^verbatim>\<open>null\<close>, as for an absent campaign.
\<close>

definition getCampaignPerformance :: "World \<Rightarrow> nat \<Rightarrow> (error + CampaignPerformance option) \<times> World" where
  "getCampaignPerformance w i =
     (case getCampaignById w i of
        (Inl e, w1) \<Rightarrow> (Inr None, consoleLog ''Error getting campaign performance:'' w1)
      | (Inr None, w1) \<Rightarrow> (Inr None, w1)
      | (Inr (Some c), w1) \<Rightarrow>
          (case getAllAdPosts w1 (Some i) of
             (Inl e, w2) \<Rightarrow> (Inr None, consoleLog ''Error getting campaign performance:'' w2)
           | (Inr posts, w2) \<Rightarrow>
               if length posts = 0 then
                 (Inr (Some \<lparr>campaign = c, totalPosts = 0, totalImpressions = 0, totalClicks = 0,
                             totalLeads = 0, ctr = Num 0, conversionRate = Num 0,
                             platformBreakdown = zeroBreakdown\<rparr>), w2)
               else
                 (let totalImpressions = foldl (\<lambda>sum post. sum + impressions post) 0 posts;
                      totalClicks = foldl (\<lambda>sum post. sum + clicks post) 0 posts;
                      totalLeads = foldl (\<lambda>sum post. sum + leadsCaptured post) 0 posts;
                      ctr = (if totalImpressions > 0
                             then timesHundred (divideNumbers totalClicks totalImpressions) else Num 0);
                      conversionRate = (if totalClicks > 0
                             then timesHundred (divideNumbers totalLeads totalClicks) else Num 0);
                      platformBreakdown = platformRates (foldl accumulate zeroBreakdown posts)
                  in (Inr (Some \<lparr>campaign = c, totalPosts = length posts,
                                 totalImpressions = totalImpressions, totalClicks = totalClicks,
                                 totalLeads = totalLeads, ctr = ctr, conversionRate = conversionRate,
                                 platformBreakdown = platformBreakdown\<rparr>), w2))))"

section \<open>Definitions used in the statements and proofs\<close>

text \<open>
  The payload of the update that \<^verbatim>\<open>runSocialPost\<close> sends from a world, and the world in
  which it sends it: after the log line and the three random numbers.
\<close>

definition postedUpdate :: "World \<Rightarrow> AdPostUpdate" where
  "postedUpdate w =
     noUpdate\<lparr>status_upd := Some ''posted'',
              impressions_upd := Some (\<lfloor>random w (randomReads w) * 1000\<rfloor> + 200),
              clicks_upd := Some (\<lfloor>random w (Suc (randomReads w)) * 200\<rfloor> + 50),
              leadsCaptured_upd := Some (\<lfloor>random w (Suc (Suc (randomReads w))) * 50\<rfloor> + 5)\<rparr>"

definition beforeUpdate :: "World \<Rightarrow> AdPost \<Rightarrow> World" where
  "beforeUpdate w post =
     w\<lparr>console := console w @ [''Posting to '' @ platform post @ '': '' @ postContent post],
       randomReads := Suc (Suc (Suc (randomReads w)))\<rparr>"

text \<open>
  The world in which the post at position \<open>i\<close> is run: after the posts before it. The
  row that \<^verbatim>\<open>runSocialPost\<close> stores from a world for a row \<open>old\<close> of the table.
\<close>

definition worldAt :: "World \<Rightarrow> AdPost list \<Rightarrow> nat \<Rightarrow> World" where
  "worldAt w posts i = snd (runAllSocialPosts w (take i posts))"



text \<open>
  For the scheduling pass. \<open>sameEnv w w'\<close>: from \<open>w\<close> to \<open>w'\<close> the campaigns, the zone and
  the sources of nondeterminism are the same and the counters have not gone back.
  \<open>grows Q w w'\<close>: moreover the posts table of \<open>w'\<close> is that of \<open>w\<close> with rows appended,
  each satisfying \<open>Q\<close>. \<open>noFailure w w'\<close>: no statement sent between \<open>w\<close> and \<open>w'\<close>
  failed. \<open>created\<close>: a row in status scheduled with zero metrics.
  \<open>newPost c p w\<close>: the row that the loop body inserts for campaign \<open>c\<close> and platform
  \<open>p\<close> from world \<open>w\<close>. \<open>passOutcome w r w'\<close>: how a pass, or a part of it, from \<open>w\<close> can
  end: resolved with nothing logged, rejected with the failure of a read and nothing
  logged, or rejected with the error of \<^verbatim>\<open>createAdPost\<close> after its log line.
\<close>

definition sameEnv :: "World \<Rightarrow> World \<Rightarrow> bool" where
  "sameEnv w w' \<longleftrightarrow>
     campaigns w' = campaigns w \<and> dbFails w' = dbFails w \<and> clock w' = clock w
     \<and> random w' = random w \<and> zone w' = zone w
     \<and> dbCalls w \<le> dbCalls w' \<and> clockReads w \<le> clockReads w'"

definition noFailure :: "World \<Rightarrow> World \<Rightarrow> bool" where
  "noFailure w w' \<longleftrightarrow> (\<forall>k. dbCalls w \<le> k \<and> k < dbCalls w' \<longrightarrow> \<not> dbFails w k)"

definition created :: "AdPost \<Rightarrow> bool" where
  "created row \<longleftrightarrow> status row = ''scheduled'' \<and> impressions row = 0 \<and> clicks row = 0 \<and> leadsCaptured row = 0"

definition grows :: "(AdPost \<Rightarrow> bool) \<Rightarrow> World \<Rightarrow> World \<Rightarrow> bool" where
  "grows Q w w' \<longleftrightarrow> sameEnv w w' \<and> (\<exists>new. adPosts w' = adPosts w @ new \<and> (\<forall>row \<in> set new. Q row))"

definition newPost :: "Campaign \<Rightarrow> string \<Rightarrow> World \<Rightarrow> AdPost" where
  "newPost c p w =
     insertedRow (nextPostId w) (clock w (Suc (Suc (clockReads w))))
       \<lparr>campaignId_ins = campaign_id c, platform_ins = p, postContent_ins = generatePostContent c p,
        postTime_ins = computePostTime (zone w) (clock w (Suc (clockReads w))),
        status_ins = Some ''scheduled'', location_ins = Some ''All India'',
        impressions_ins = None, clicks_ins = None, leadsCaptured_ins = None\<rparr>"

definition passOutcome :: "World \<Rightarrow> error + unit \<Rightarrow> World \<Rightarrow> bool" where
  "passOutcome w r w' \<longleftrightarrow>
     (r = Inr () \<and> console w' = console w)
     \<or> (r = Inl DbFailure \<and> console w' = console w)
     \<or> (r = Inl (JsError ''Failed to create ad post'')
         \<and> console w' = console w @ [''Error creating ad post:''])"

text \<open>
  For the aggregator. \<open>selectedPosts w i\<close>: the rows that \<^verbatim>\<open>getAllAdPosts\<close> selects for
  campaign id \<open>i\<close>. \<open>performanceOf c posts\<close>: what \<^verbatim>\<open>getCampaignPerformance\<close> builds
  from the campaign and the posts it has read. \<open>bucket name b\<close>: the entry
  \<^verbatim>\<open>platformBreakdown[name]\<close>, for a name among the five. \<open>total f posts\<close>: the sum of a
  metric over posts, and \<open>postsOf name posts\<close>: the posts of a platform. \<open>rate a b\<close>: the
  double that \<^verbatim>\<open>(a / b) * 100\<close> is for a positive \<open>b\<close>.
\<close>

definition selectedPosts :: "World \<Rightarrow> nat \<Rightarrow> AdPost list" where
  "selectedPosts w i =
     sort_key (\<lambda>p. - createdAt p)
       (if i \<noteq> 0 then filter (\<lambda>p. campaignId p = i) (adPosts w) else adPosts w)"

definition performanceOf :: "Campaign \<Rightarrow> AdPost list \<Rightarrow> CampaignPerformance" where
  "performanceOf c posts =
     (if length posts = 0 then
        \<lparr>campaign = c, totalPosts = 0, totalImpressions = 0, totalClicks = 0,
         totalLeads = 0, ctr = Num 0, conversionRate = Num 0, platformBreakdown = zeroBreakdown\<rparr>
      else
        (let totalImpressions = foldl (\<lambda>sum post. sum + impressions post) 0 posts;
             totalClicks = foldl (\<lambda>sum post. sum + clicks post) 0 posts;
             totalLeads = foldl (\<lambda>sum post. sum + leadsCaptured post) 0 posts
         in \<lparr>campaign = c, totalPosts = length posts,
             totalImpressions = totalImpressions, totalClicks = totalClicks, totalLeads = totalLeads,
             ctr = (if totalImpressions > 0
                    then timesHundred (divideNumbers totalClicks totalImpressions) else Num 0),
             conversionRate = (if totalClicks > 0
                    then timesHundred (divideNumbers totalLeads totalClicks) else Num 0),
             platformBreakdown = platformRates (foldl accumulate zeroBreakdown posts)\<rparr>))"

definition bucket :: "string \<Rightarrow> PlatformBreakdown \<Rightarrow> AdPostAnalytics" where
  "bucket name b =
     (if name = ''facebook'' then facebook b
      else if name = ''instagram'' then instagram b
      else if name = ''twitter'' then twitter b
      else if name = ''whatsapp'' then whatsapp b
      else telegram b)"

definition total :: "(AdPost \<Rightarrow> int) \<Rightarrow> AdPost list \<Rightarrow> int" where
  "total f posts = sum_list (map f posts)"

definition postsOf :: "string \<Rightarrow> AdPost list \<Rightarrow> AdPost list" where
  "postsOf name posts = filter (\<lambda>p. platform p = name) posts"

definition rate :: "int \<Rightarrow> int \<Rightarrow> number" where
  "rate a b = Num (roundDouble (roundDouble (of_int a / of_int b) * 100))"

text \<open>
  For the executor. \<open>keeps S w w'\<close>: the posts table of \<open>w'\<close> has the rows of \<open>w\<close> in
  the same order with the same ids, and each row whose id is not in \<open>S\<close> is unchanged.
\<close>

definition keeps :: "nat set \<Rightarrow> World \<Rightarrow> World \<Rightarrow> bool" where
  "keeps S w w' \<longleftrightarrow>
     length (adPosts w') = length (adPosts w)
     \<and> (\<forall>j < length (adPosts w).
          post_id (adPosts w' ! j) = post_id (adPosts w ! j)
          \<and> (post_id (adPosts w ! j) \<notin> S \<longrightarrow> adPosts w' ! j = adPosts w ! j))"

section \<open>Concrete inputs\<close>

definition campaign238 :: Campaign where
  "campaign238 = \<lparr>campaign_id = 1, campaign_name = ''Drive'', messageTemplate = replicate 238 (CHR ''a''),
                   formUrl = None, campaign_status = ''active''\<rparr>"

definition campaign241 :: Campaign where
  "campaign241 = \<lparr>campaign_id = 1, campaign_name = ''Drive'', messageTemplate = replicate 241 (CHR ''a''),
                   formUrl = Some ''http://f'', campaign_status = ''active''\<rparr>"

definition campaign1 :: Campaign where
  "campaign1 = \<lparr>campaign_id = 1, campaign_name = ''Drive'', messageTemplate = ''Join us'',
                 formUrl = Some ''http://f'', campaign_status = ''active''\<rparr>"

definition post1 :: AdPost where
  "post1 = \<lparr>post_id = 1, campaignId = 1, platform = ''facebook'', postContent = ''Join us'',
             postTime = 1000, status = ''scheduled'', location = Some ''All India'',
             impressions = 0, clicks = 0, leadsCaptured = 0, createdAt = 0, updatedAt = 0\<rparr>"

definition post2 :: AdPost where
  "post2 = \<lparr>post_id = 2, campaignId = 1, platform = ''twitter'', postContent = ''Join us'',
             postTime = 1000, status = ''posted'', location = Some ''All India'',
             impressions = 500, clicks = 60, leadsCaptured = 7, createdAt = 0, updatedAt = 10\<rparr>"


text \<open>
  A zone of one fixed offset, and India Standard Time, five and a half hours ahead of UTC.
\<close>

definition fixedZone :: "int \<Rightarrow> Zone" where
  "fixedZone tz = \<lparr>utcOffsetAt = (\<lambda>_. tz), localOffsetAt = (\<lambda>_. tz)\<rparr>"

definition ist :: Zone where
  "ist = fixedZone 19800000"

text \<open>
  New York in 2024: five hours behind UTC, and four hours behind from 10 March 07:00 UTC
  (02:00 local, which becomes 03:00) until 3 November 06:00 UTC (02:00 local, which
  becomes 01:00). A local time that the clocks skip has the offset from before the
  transition, and one that they repeat is the earlier instant.
\<close>

definition newYork :: Zone where
  "newYork =
     \<lparr>utcOffsetAt = (\<lambda>t. if 1710054000000 \<le> t \<and> t < 1730613600000 then - 14400000 else - 18000000),
      localOffsetAt = (\<lambda>l. if 1710039600000 \<le> l \<and> l < 1730599200000 then - 14400000 else - 18000000)\<rparr>"

definition baseWorld :: World where
  "baseWorld = \<lparr>campaigns = [campaign1], adPosts = [post1, post2], nextPostId = 3, console = [],
                 dbFails = (\<lambda>_. False), dbCalls = 0, clock = (\<lambda>_. 5000), clockReads = 0,
                 random = (\<lambda>_. 1 / 2), randomReads = 0, zone = ist\<rparr>"

definition downWorld :: World where
  "downWorld = baseWorld\<lparr>dbFails := (\<lambda>_. True)\<rparr>"

definition emptyWorld :: World where
  "emptyWorld = baseWorld\<lparr>adPosts := []\<rparr>"

text \<open>The clock is half a second before the time of the facebook post.\<close>

definition earlyWorld :: World where
  "earlyWorld = baseWorld\<lparr>clock := (\<lambda>_. 500)\<rparr>"


definition insertFails :: World where
  "insertFails = emptyWorld\<lparr>dbFails := (\<lambda>k. k = 2)\<rparr>"

text \<open>A campaign with the id 0 and no posts of its own, beside the posts of campaign 1.\<close>

definition campaign0 :: Campaign where
  "campaign0 = \<lparr>campaign_id = 0, campaign_name = ''Zero'', messageTemplate = ''Hello'',
                 formUrl = None, campaign_status = ''draft''\<rparr>"

definition zeroIdWorld :: World where
  "zeroIdWorld = baseWorld\<lparr>campaigns := [campaign0, campaign1]\<rparr>"

text \<open>
  Two posted posts of campaign 1, on twitter and on facebook, and a scheduled one on
  facebook.
\<close>

definition post3 :: AdPost where
  "post3 = \<lparr>post_id = 3, campaignId = 1, platform = ''facebook'', postContent = ''Join us'',
             postTime = 2000, status = ''posted'', location = Some ''All India'',
             impressions = 300, clicks = 45, leadsCaptured = 0, createdAt = 0, updatedAt = 20\<rparr>"

definition ratesWorld :: World where
  "ratesWorld = baseWorld\<lparr>adPosts := [post1, post2, post3]\<rparr>"

section \<open>Content generator: theorems\<close>

lemma generatePostContent_twitter:
  "generatePostContent c ''twitter'' =
     (if length (messageTemplate c) > 240 then take 237 (messageTemplate c) @ ''...''
      else messageTemplate c) @ ''\<newline>\<newline>#StudentJobs'' @ ctaLine c"
  by (simp add: generatePostContent_def ctaLine_def Let_def split: option.splits)

text \<open>
  Claim C2, as the code has it: for twitter the template is cut exactly when it is longer
  than 240 characters, to its first 237 characters and an ellipsis (240 characters);
  a template of at most 240 characters is kept whole. The hashtag and the optional
  call-to-action line follow the base in both cases.
\<close>

theorem generatePostContent_twitter_limit:
  "(length (messageTemplate c) \<le> 240 \<longrightarrow>
      generatePostContent c ''twitter'' = messageTemplate c @ ''\<newline>\<newline>#StudentJobs'' @ ctaLine c)
   \<and> (length (messageTemplate c) > 240 \<longrightarrow>
      generatePostContent c ''twitter''
        = (take 237 (messageTemplate c) @ ''...'') @ ''\<newline>\<newline>#StudentJobs'' @ ctaLine c
      \<and> length (take 237 (messageTemplate c) @ ''...'') = 240)"
  by (simp add: generatePostContent_twitter)

theorem generatePostContent_twitter_limit_witness:
  "length (messageTemplate campaign241) > 240
   \<and> generatePostContent campaign241 ''twitter''
       = replicate 237 (CHR ''a'') @ ''...\<newline>\<newline>#StudentJobs\<newline>\<newline>Apply now: http://f''
   \<and> length (messageTemplate campaign238) \<le> 240
   \<and> generatePostContent campaign238 ''twitter'' = replicate 238 (CHR ''a'') @ ''\<newline>\<newline>#StudentJobs''"
  using generatePostContent_twitter_limit [of campaign241] generatePostContent_twitter_limit [of campaign238]
  by (simp add: campaign241_def campaign238_def ctaLine_def)

text \<open>
  Claim C2 as stated fails: a template of 238 characters is longer than 237 and is not
  cut, and no ellipsis is added.
\<close>

theorem generatePostContent_twitter_238_counterexample:
  "length (messageTemplate campaign238) = 238
   \<and> generatePostContent campaign238 ''twitter'' = messageTemplate campaign238 @ ''\<newline>\<newline>#StudentJobs''"
  by (simp add: campaign238_def generatePostContent_def)

section \<open>Post execution simulator: theorems\<close>

lemma updateAdPost_Inr: "\<exists>r. fst (updateAdPost w i d) = Inr r"
  by (simp add: updateAdPost_def newDate_def dbStatement_def Let_def)

lemma updateAdPost_failed:
  "dbFails w (dbCalls w) \<Longrightarrow>
   updateAdPost w i d =
     (Inr None, w\<lparr>clockReads := Suc (clockReads w), dbCalls := Suc (dbCalls w),
                  console := console w @ [''Error updating ad post:'']\<rparr>)"
  by (simp add: updateAdPost_def newDate_def dbStatement_def consoleLog_def Let_def)

lemma runSocialPost_try:
  "runSocialPost w post = updateAdPost (beforeUpdate w post) (post_id post) (postedUpdate w)"
proof -
  obtain r w4 where u: "updateAdPost (beforeUpdate w post) (post_id post) (postedUpdate w) = (Inr r, w4)"
    using updateAdPost_Inr [of "beforeUpdate w post" "post_id post" "postedUpdate w"]
    by (cases "updateAdPost (beforeUpdate w post) (post_id post) (postedUpdate w)") auto
  have "runSocialPost w post = (Inr r, w4)"
    using u by (simp add: runSocialPost_def mathRandom_def consoleLog_def Let_def
        beforeUpdate_def postedUpdate_def)
  then show ?thesis using u by simp
qed

lemma updateAdPost_ok:
  "\<not> dbFails w (dbCalls w) \<Longrightarrow>
   updateAdPost w i d =
     (Inr (case filter (\<lambda>p. post_id p = i)
                 (map (\<lambda>p. if post_id p = i then applyUpdate d (clock w (clockReads w)) p else p) (adPosts w)) of
             [] \<Rightarrow> None | r # _ \<Rightarrow> Some r),
      w\<lparr>clockReads := Suc (clockReads w), dbCalls := Suc (dbCalls w),
        adPosts := map (\<lambda>p. if post_id p = i then applyUpdate d (clock w (clockReads w)) p else p) (adPosts w)\<rparr>)"
  by (simp add: updateAdPost_def newDate_def dbStatement_def Let_def)

lemma post_id_applyUpdate [simp]: "post_id (applyUpdate d t p) = post_id p"
  by (simp add: applyUpdate_def)


lemma filter_head_mem: "filter P xs = r # rs \<Longrightarrow> r \<in> set xs \<and> P r"
proof -
  assume "filter P xs = r # rs"
  then have "r \<in> set (filter P xs)" by simp
  then show ?thesis by simp
qed

lemma updateAdPost_ok_fst:
  "\<not> dbFails w (dbCalls w) \<Longrightarrow>
   fst (updateAdPost w i d) =
     Inr (case filter (\<lambda>p. post_id p = i)
                 (map (\<lambda>p. if post_id p = i then applyUpdate d (clock w (clockReads w)) p else p) (adPosts w)) of
             [] \<Rightarrow> None | r # _ \<Rightarrow> Some r)"
  by (simp add: updateAdPost_ok)


lemma updateAdPost_found:
  assumes "\<not> dbFails w (dbCalls w)" and "i \<in> post_id ` set (adPosts w)"
  shows "\<exists>r. fst (updateAdPost w i d) = Inr (Some r)"
proof -
  define rows where "rows = map (\<lambda>p. if post_id p = i then applyUpdate d (clock w (clockReads w)) p else p) (adPosts w)"
  from assms(2) obtain p where p: "p \<in> set (adPosts w)" "post_id p = i" by auto
  then have "applyUpdate d (clock w (clockReads w)) p \<in> set rows"
    unfolding rows_def by force
  then have "applyUpdate d (clock w (clockReads w)) p \<in> set (filter (\<lambda>p. post_id p = i) rows)"
    using p(2) by simp
  then obtain r rs where "filter (\<lambda>p. post_id p = i) rows = r # rs"
    by (cases "filter (\<lambda>p. post_id p = i) rows") auto
  then show ?thesis using assms(1) unfolding rows_def by (simp add: updateAdPost_ok_fst)
qed

lemma updateAdPost_absent:
  assumes "i \<notin> post_id ` set (adPosts w)"
  shows "fst (updateAdPost w i d) = Inr None"
proof (cases "dbFails w (dbCalls w)")
  case True
  then show ?thesis by (simp add: updateAdPost_failed)
next
  case False
  define rows where "rows = map (\<lambda>p. if post_id p = i then applyUpdate d (clock w (clockReads w)) p else p) (adPosts w)"
  have "map post_id rows = map post_id (adPosts w)" unfolding rows_def by simp
  then have "post_id ` set rows = post_id ` set (adPosts w)" by (metis set_map)
  then have "\<forall>p \<in> set rows. post_id p \<noteq> i" using assms by blast
  then have "filter (\<lambda>p. post_id p = i) rows = []" by (simp add: filter_empty_conv)
  then show ?thesis using False unfolding rows_def by (simp add: updateAdPost_ok_fst)
qed

lemma runSocialPost_Inr: "\<exists>r. fst (runSocialPost w post) = Inr r"
  by (simp add: runSocialPost_try updateAdPost_Inr)

lemma status_upd_postedUpdate [simp]: "status_upd (postedUpdate w) = Some ''posted''"
  by (simp add: postedUpdate_def)

lemma beforeUpdate_fields [simp]:
  "dbFails (beforeUpdate w post) = dbFails w" "dbCalls (beforeUpdate w post) = dbCalls w"
  "adPosts (beforeUpdate w post) = adPosts w" "clock (beforeUpdate w post) = clock w"
  "clockReads (beforeUpdate w post) = clockReads w"
  by (simp_all add: beforeUpdate_def)


lemma runSocialPost_found:
  "\<not> dbFails w (dbCalls w) \<Longrightarrow> post_id post \<in> post_id ` set (adPosts w) \<Longrightarrow>
   \<exists>r. fst (runSocialPost w post) = Inr (Some r)"
  using updateAdPost_found [of "beforeUpdate w post" "post_id post" "postedUpdate w"]
  by (simp add: runSocialPost_try)

lemma runAllLoop_acc:
  "runAllLoop posts acc w =
     (case runAllLoop posts [] w of
        (Inl e, w') \<Rightarrow> (Inl e, w')
      | (Inr r, w') \<Rightarrow> (Inr (acc @ r), w'))"
proof (induction posts arbitrary: acc w)
  case Nil
  then show ?case by simp
next
  case (Cons post posts)
  show ?case
  proof (cases "status post = ''scheduled''")
    case False
    then show ?thesis
      using Cons.IH [of "acc @ [Some post]" w] Cons.IH [of "[Some post]" w]
      by (simp split: prod.splits sum.splits)
  next
    case True
    obtain r w1 where rs: "runSocialPost w post = (Inr r, w1)"
      using runSocialPost_Inr [of w post] by (cases "runSocialPost w post") auto
    show ?thesis
      using True rs Cons.IH [of "acc @ [r]" w1] Cons.IH [of "[r]" w1]
      by (simp split: prod.splits sum.splits)
  qed
qed

lemma runAllSocialPosts_Cons:
  "runAllSocialPosts w (post # posts) =
     (if status post = ''scheduled'' then
        (case runSocialPost w post of
           (Inl e, w1) \<Rightarrow> (Inl e, w1)
         | (Inr r, w1) \<Rightarrow>
             (case runAllSocialPosts w1 posts of
                (Inl e, w2) \<Rightarrow> (Inl e, w2)
              | (Inr rs, w2) \<Rightarrow> (Inr (r # rs), w2)))
      else
        (case runAllSocialPosts w posts of
           (Inl e, w2) \<Rightarrow> (Inl e, w2)
         | (Inr rs, w2) \<Rightarrow> (Inr (Some post # rs), w2)))"
  using runAllLoop_acc [of posts "[Some post]" w]
  by (auto simp: runAllSocialPosts_def runAllLoop_acc [of posts "[_]"] split: prod.splits sum.splits)

lemma runAllSocialPosts_Nil [simp]: "runAllSocialPosts w [] = (Inr [], w)"
  by (simp add: runAllSocialPosts_def)

lemma runAllSocialPosts_Inr: "\<exists>rs. fst (runAllSocialPosts w posts) = Inr rs \<and> length rs = length posts"
proof (induction posts arbitrary: w)
  case Nil
  then show ?case by simp
next
  case (Cons post posts)
  obtain r w1 where rs: "runSocialPost w post = (Inr r, w1)"
    using runSocialPost_Inr [of w post] by (cases "runSocialPost w post") auto
  show ?case
    using rs Cons.IH [of w] Cons.IH [of w1]
    by (auto simp: runAllSocialPosts_Cons split: prod.splits sum.splits)
qed


lemma runAllSocialPosts_Cons_snd:
  "snd (runAllSocialPosts w (post # posts)) =
     snd (runAllSocialPosts (if status post = ''scheduled'' then snd (runSocialPost w post) else w) posts)"
proof -
  obtain r1 w1 where rs: "runSocialPost w post = (Inr r1, w1)"
    using runSocialPost_Inr [of w post] by (cases "runSocialPost w post") auto
  obtain rs1 w2 where a: "runAllSocialPosts w1 posts = (Inr rs1, w2)"
    using runAllSocialPosts_Inr [of w1 posts] by (cases "runAllSocialPosts w1 posts") auto
  obtain rs2 w3 where b: "runAllSocialPosts w posts = (Inr rs2, w3)"
    using runAllSocialPosts_Inr [of w posts] by (cases "runAllSocialPosts w posts") auto
  show ?thesis using rs a b by (simp add: runAllSocialPosts_Cons)
qed






lemma worldAt_0 [simp]: "worldAt w posts 0 = w"
  by (simp add: worldAt_def)



text \<open>
  Claim C3 at a failing input: the store rejects every statement and the post is in
  status scheduled. \<^verbatim>\<open>updateAdPost\<close> catches the failure and resolves to \<^verbatim>\<open>null\<close>, so
  \<^verbatim>\<open>runSocialPost\<close> returns \<^verbatim>\<open>null\<close> from its \<^verbatim>\<open>try\<close> branch: no record in status
  failed is returned, and the stored post stays as it was.
\<close>

theorem runSocialPost_store_failure_null:
  "status post1 = ''scheduled''
   \<and> fst (runSocialPost downWorld post1) = Inr None
   \<and> adPosts (snd (runSocialPost downWorld post1)) = [post1, post2]"
  by (simp add: runSocialPost_try updateAdPost_failed downWorld_def baseWorld_def post1_def beforeUpdate_def)

text \<open>
  Claim C10: \<^verbatim>\<open>updateAdPost\<close> never rejects, and resolves to \<^verbatim>\<open>null\<close> when the statement
  fails, as it does when no row has the id. Then \<^verbatim>\<open>runSocialPost\<close> resolves to \<^verbatim>\<open>null\<close> as well and leaves the table as it
  was. Its \<^verbatim>\<open>catch\<close> branch is never run: the console gets the line of the \<^verbatim>\<open>try\<close>
  branch and, on a failure, the line of \<^verbatim>\<open>updateAdPost\<close>, never the line
  \<^verbatim>\<open>Error posting to\<close> that the \<^verbatim>\<open>catch\<close> branch starts with.
\<close>

theorem updateAdPost_never_throws:
  "(\<exists>r. fst (updateAdPost w i d) = Inr r)
   \<and> (i \<notin> post_id ` set (adPosts w) \<longrightarrow> fst (updateAdPost w i d) = Inr None)
   \<and> (dbFails w (dbCalls w) \<longrightarrow>
        fst (updateAdPost w i d) = Inr None
        \<and> fst (runSocialPost w post) = Inr None
        \<and> adPosts (snd (runSocialPost w post)) = adPosts w)
   \<and> console (snd (runSocialPost w post)) =
        console w @ [''Posting to '' @ platform post @ '': '' @ postContent post]
          @ (if dbFails w (dbCalls w) then [''Error updating ad post:''] else [])"
proof -
  have a: "\<exists>r. fst (updateAdPost w i d) = Inr r" by (rule updateAdPost_Inr)
  have n: "i \<notin> post_id ` set (adPosts w) \<longrightarrow> fst (updateAdPost w i d) = Inr None"
  proof
    assume "i \<notin> post_id ` set (adPosts w)"
    then show "fst (updateAdPost w i d) = Inr None"
      using updateAdPost_absent by simp
  qed
  have b: "dbFails w (dbCalls w) \<longrightarrow>
        fst (updateAdPost w i d) = Inr None
        \<and> fst (runSocialPost w post) = Inr None
        \<and> adPosts (snd (runSocialPost w post)) = adPosts w"
    by (simp add: runSocialPost_try updateAdPost_failed)
  have d: "console (snd (runSocialPost w post)) =
        console w @ [''Posting to '' @ platform post @ '': '' @ postContent post]
          @ (if dbFails w (dbCalls w) then [''Error updating ad post:''] else [])"
  proof (cases "dbFails w (dbCalls w)")
    case True
    then show ?thesis by (simp add: runSocialPost_try updateAdPost_failed) (simp add: beforeUpdate_def)
  next
    case False
    then show ?thesis by (simp add: runSocialPost_try updateAdPost_ok) (simp add: beforeUpdate_def)
  qed
  show ?thesis using a n b d by blast
qed

text \<open>The witness of C10: the store that rejects every statement.\<close>

theorem updateAdPost_never_throws_witness:
  "dbFails downWorld (dbCalls downWorld)
   \<and> fst (updateAdPost downWorld 1 noUpdate) = Inr None
   \<and> fst (runSocialPost downWorld post1) = Inr None
   \<and> console (snd (runSocialPost downWorld post1)) = [''Posting to facebook: Join us'', ''Error updating ad post:'']"
  using updateAdPost_never_throws [of downWorld 1 noUpdate post1]
  by (simp add: downWorld_def baseWorld_def post1_def)




section \<open>Scheduling decision engine: theorems\<close>

subsection \<open>Dates\<close>

lemma day_div: "0 \<le> r \<Longrightarrow> r < 86400000 \<Longrightarrow> (q * 86400000 + r) div 86400000 = (q::int)"
  by (rule int_div_pos_eq [of _ _ _ r]) simp_all

lemma day_mod: "0 \<le> r \<Longrightarrow> r < 86400000 \<Longrightarrow> (q * 86400000 + r) mod 86400000 = (r::int)"
  by (rule int_mod_pos_eq [of _ _ q]) simp_all

lemma localTime_fixedZone: "localTime (fixedZone tz) d = d + tz"
  by (simp add: localTime_def fixedZone_def)

lemma setHours_fixedZone:
  "localTime (fixedZone tz) (setHours (fixedZone tz) d h)
     = localDay (fixedZone tz) d * 86400000 + h * 3600000"
  by (simp add: localTime_fixedZone setHours_def Let_def msPerDay_def msPerHour_def)
     (simp add: fixedZone_def)

lemma localDay_setHours:
  assumes "0 \<le> h" and "h < 24"
  shows "localDay (fixedZone tz) (setHours (fixedZone tz) d h) = localDay (fixedZone tz) d"
proof -
  have "0 \<le> h * 3600000" "h * 3600000 < 86400000" using assms by simp_all
  then have "(localDay (fixedZone tz) d * 86400000 + h * 3600000) div 86400000 = localDay (fixedZone tz) d"
    by (rule day_div)
  then show ?thesis
    by (simp only: localDay_def [of _ "setHours (fixedZone tz) d h"] setHours_fixedZone msPerDay_def)
qed

lemma msOfLocalDay_setHours:
  assumes "0 \<le> h" and "h < 24"
  shows "msOfLocalDay (fixedZone tz) (setHours (fixedZone tz) d h) = h * msPerHour"
proof -
  have "0 \<le> h * 3600000" "h * 3600000 < 86400000" using assms by simp_all
  then have "(localDay (fixedZone tz) d * 86400000 + h * 3600000) mod 86400000 = h * 3600000"
    by (rule day_mod)
  then show ?thesis
    by (simp only: msOfLocalDay_def setHours_fixedZone msPerDay_def msPerHour_def)
qed

lemma localDay_addHours_24:
  "localDay (fixedZone tz) (addHours d 24) = localDay (fixedZone tz) d + 1"
proof -
  have "addHours d 24 + tz = (d + tz) + 1 * 86400000"
    by (simp add: addHours_def msPerHour_def)
  then have "(addHours d 24 + tz) div 86400000 = (d + tz) div 86400000 + 1"
    by simp
  then show ?thesis by (simp only: localDay_def localTime_fixedZone msPerDay_def)
qed

text \<open>
  In a zone of one fixed offset the time of the new post is 09:00 of the local day,
  09:00 of the next local day, or the top of the next hour of the local day.
\<close>

lemma computePostTime_fixedZone:
  "(getHours (fixedZone tz) d < 9 \<longrightarrow>
      localDay (fixedZone tz) (computePostTime (fixedZone tz) d) = localDay (fixedZone tz) d
      \<and> msOfLocalDay (fixedZone tz) (computePostTime (fixedZone tz) d) = 9 * msPerHour)
   \<and> (getHours (fixedZone tz) d \<ge> 18 \<longrightarrow>
      localDay (fixedZone tz) (computePostTime (fixedZone tz) d) = localDay (fixedZone tz) d + 1
      \<and> msOfLocalDay (fixedZone tz) (computePostTime (fixedZone tz) d) = 9 * msPerHour)
   \<and> (9 \<le> getHours (fixedZone tz) d \<and> getHours (fixedZone tz) d < 18 \<longrightarrow>
      localDay (fixedZone tz) (computePostTime (fixedZone tz) d) = localDay (fixedZone tz) d
      \<and> msOfLocalDay (fixedZone tz) (computePostTime (fixedZone tz) d)
          = (getHours (fixedZone tz) d + 1) * msPerHour)"
  by (simp add: computePostTime_def localDay_setHours msOfLocalDay_setHours localDay_addHours_24)

text \<open>
  In New York on the night of the change, at 01:30 local time on 10 March 2024, the time
  of the new post is 09:00 of that day in the new offset, 13:00 UTC.
\<close>

lemma computePostTime_newYork_night: "computePostTime newYork 1710052200000 = 1710075600000"
proof -
  have h: "getHours newYork 1710052200000 = 1"
    by (simp add: getHours_def msOfLocalDay_def localTime_def newYork_def msPerDay_def msPerHour_def)
  show ?thesis
    by (simp add: computePostTime_def h)
       (simp add: setHours_def localDay_def localTime_def newYork_def msPerDay_def msPerHour_def)
qed

subsection \<open>One platform\<close>

text \<open>The filter keeps no post: no stored time is read back as a date.\<close>

lemma scheduledPosts_empty [simp]: "scheduledPosts ex p now = []"
  by (simp add: scheduledPosts_def readBack_def isAfter_def)

lemma platformStep_failed:
  "dbFails w (dbCalls w) \<Longrightarrow>
   platformStep c ex p w =
     (Inl (JsError ''Failed to create ad post''),
      w\<lparr>clockReads := Suc (Suc (clockReads w)), dbCalls := Suc (dbCalls w),
        console := console w @ [''Error creating ad post:'']\<rparr>)"
  by (simp add: platformStep_def newDate_def createAdPost_def dbStatement_def consoleLog_def)

lemma platformStep_created:
  "\<not> dbFails w (dbCalls w) \<Longrightarrow>
   platformStep c ex p w =
     (Inr (),
      w\<lparr>clockReads := Suc (Suc (Suc (clockReads w))), dbCalls := Suc (dbCalls w),
        adPosts := adPosts w @ [newPost c p w], nextPostId := Suc (nextPostId w)\<rparr>)"
  by (simp add: platformStep_def newDate_def createAdPost_def dbStatement_def newPost_def Let_def)

lemma sameEnv_refl [simp]: "sameEnv w w"
  by (simp add: sameEnv_def)

lemma sameEnv_trans: "sameEnv w w1 \<Longrightarrow> sameEnv w1 w2 \<Longrightarrow> sameEnv w w2"
  by (simp add: sameEnv_def)

lemma grows_refl [simp]: "grows Q w w"
  by (simp add: grows_def)

lemma grows_trans:
  assumes "grows Q w w1" and "grows Q w1 w2"
  shows "grows Q w w2"
proof -
  from assms(1) obtain n1 where a: "sameEnv w w1" "adPosts w1 = adPosts w @ n1" "\<forall>row \<in> set n1. Q row"
    unfolding grows_def by blast
  from assms(2) obtain n2 where b: "sameEnv w1 w2" "adPosts w2 = adPosts w1 @ n2" "\<forall>row \<in> set n2. Q row"
    unfolding grows_def by blast
  have "adPosts w2 = adPosts w @ (n1 @ n2)" using a(2) b(2) by simp
  moreover have "\<forall>row \<in> set (n1 @ n2). Q row" using a(3) b(3) by auto
  moreover have "sameEnv w w2" using a(1) b(1) by (rule sameEnv_trans)
  ultimately show ?thesis unfolding grows_def by blast
qed

lemma grows_weaken:
  assumes "grows Q w w'" and "\<And>row. Q row \<Longrightarrow> Q' row"
  shows "grows Q' w w'"
  using assms unfolding grows_def by blast

lemma grows_sameEnv: "grows Q w w' \<Longrightarrow> sameEnv w w'"
  by (simp add: grows_def)

lemma noFailure_refl [simp]: "noFailure w w"
  by (auto simp: noFailure_def)

lemma noFailure_trans:
  assumes "sameEnv w w1" and "noFailure w w1" and "noFailure w1 w2"
  shows "noFailure w w2"
  unfolding noFailure_def
proof (intro allI impI)
  fix k assume k: "dbCalls w \<le> k \<and> k < dbCalls w2"
  show "\<not> dbFails w k"
  proof (cases "k < dbCalls w1")
    case True
    then show ?thesis using assms(2) k unfolding noFailure_def by blast
  next
    case False
    then have "dbCalls w1 \<le> k \<and> k < dbCalls w2" using k by simp
    then have "\<not> dbFails w1 k" using assms(3) unfolding noFailure_def by blast
    then show ?thesis using assms(1) unfolding sameEnv_def by simp
  qed
qed

lemma passOutcome_trans:
  assumes "passOutcome w (Inr ()) w1" and "passOutcome w1 r w2"
  shows "passOutcome w r w2"
proof -
  from assms(1) have "console w1 = console w" unfolding passOutcome_def by simp
  then show ?thesis using assms(2) unfolding passOutcome_def by simp
qed

lemma created_newPost: "created (newPost c p w)"
  by (simp add: created_def newPost_def insertedRow_def)

lemma newPost_campaign: "campaignId (newPost c p w) = campaign_id c" "platform (newPost c p w) = p"
  by (simp_all add: newPost_def insertedRow_def)

text \<open>One platform: at most one row is appended, for this campaign and platform.\<close>

lemma platformStep_grows:
  "grows (\<lambda>row. campaignId row = campaign_id c \<and> platform row = p \<and> created row) w
     (snd (platformStep c ex p w))"
proof (cases "dbFails w (dbCalls w)")
  case True
  then show ?thesis by (simp add: platformStep_failed grows_def sameEnv_def)
next
  case False
  then show ?thesis
    by (simp add: platformStep_created grows_def sameEnv_def created_newPost newPost_campaign)
qed

lemma platformStep_noFailure:
  assumes "fst (platformStep c ex p w) = Inr ()"
  shows "noFailure w (snd (platformStep c ex p w))"
proof (cases "dbFails w (dbCalls w)")
  case True
  then show ?thesis using assms by (simp add: platformStep_failed)
next
  case False
  have "\<And>k. dbCalls w \<le> k \<Longrightarrow> k < Suc (dbCalls w) \<Longrightarrow> \<not> dbFails w k"
    using False by (metis le_antisym less_Suc_eq_le)
  with False show ?thesis by (simp add: platformStep_created noFailure_def)
qed

lemma platformStep_outcome:
  "passOutcome w (fst (platformStep c ex p w)) (snd (platformStep c ex p w))"
proof (cases "dbFails w (dbCalls w)")
  case True
  then show ?thesis by (simp add: platformStep_failed passOutcome_def)
next
  case False
  then show ?thesis by (simp add: platformStep_created passOutcome_def)
qed

subsection \<open>The loops\<close>

lemma platformLoop_Cons_snd:
  "snd (platformLoop c ex (p # ps) w) =
     (case fst (platformStep c ex p w) of
        Inl e \<Rightarrow> snd (platformStep c ex p w)
      | Inr _ \<Rightarrow> snd (platformLoop c ex ps (snd (platformStep c ex p w))))"
  by (cases "platformStep c ex p w") (simp split: sum.splits)

lemma platformLoop_Cons_fst:
  "fst (platformLoop c ex (p # ps) w) =
     (case fst (platformStep c ex p w) of
        Inl e \<Rightarrow> Inl e
      | Inr _ \<Rightarrow> fst (platformLoop c ex ps (snd (platformStep c ex p w))))"
  by (cases "platformStep c ex p w") (simp split: sum.splits)

lemma platformLoop_grows:
  "grows (\<lambda>row. campaignId row = campaign_id c \<and> created row) w (snd (platformLoop c ex ps w))"
proof (induction ps arbitrary: w)
  case Nil
  then show ?case by simp
next
  case (Cons p ps)
  let ?Q = "\<lambda>row. campaignId row = campaign_id c \<and> created row"
  let ?w1 = "snd (platformStep c ex p w)"
  have step: "grows ?Q w ?w1"
    by (rule grows_weaken [OF platformStep_grows [of c p w ex]]) simp
  show ?case
  proof (cases "fst (platformStep c ex p w)")
    case (Inl e)
    then show ?thesis using step by (simp add: platformLoop_Cons_snd del: platformLoop.simps)
  next
    case (Inr u)
    have "grows ?Q ?w1 (snd (platformLoop c ex ps ?w1))" by (rule Cons.IH)
    with step have "grows ?Q w (snd (platformLoop c ex ps ?w1))" by (rule grows_trans)
    then show ?thesis using Inr by (simp add: platformLoop_Cons_snd del: platformLoop.simps)
  qed
qed

lemma platformLoop_sameEnv: "sameEnv w (snd (platformLoop c ex ps w))"
  using platformLoop_grows by (rule grows_sameEnv)

lemma platformLoop_noFailure:
  "fst (platformLoop c ex ps w) = Inr () \<Longrightarrow> noFailure w (snd (platformLoop c ex ps w))"
proof (induction ps arbitrary: w)
  case Nil
  then show ?case by simp
next
  case (Cons p ps)
  let ?w1 = "snd (platformStep c ex p w)"
  from Cons.prems obtain u where u: "fst (platformStep c ex p w) = Inr u"
    by (cases "fst (platformStep c ex p w)") (simp_all add: platformLoop_Cons_fst del: platformLoop.simps)
  then have u': "fst (platformStep c ex p w) = Inr ()" by simp
  have rest: "fst (platformLoop c ex ps ?w1) = Inr ()"
    using Cons.prems u by (simp add: platformLoop_Cons_fst del: platformLoop.simps)
  have "sameEnv w ?w1" using platformStep_grows [of c p w ex] by (rule grows_sameEnv)
  moreover have "noFailure w ?w1" using u' by (rule platformStep_noFailure)
  moreover have "noFailure ?w1 (snd (platformLoop c ex ps ?w1))" using rest by (rule Cons.IH)
  ultimately have "noFailure w (snd (platformLoop c ex ps ?w1))" by (rule noFailure_trans)
  then show ?case using u by (simp add: platformLoop_Cons_snd del: platformLoop.simps)
qed

lemma platformLoop_outcome:
  "passOutcome w (fst (platformLoop c ex ps w)) (snd (platformLoop c ex ps w))"
proof (induction ps arbitrary: w)
  case Nil
  then show ?case by (simp add: passOutcome_def)
next
  case (Cons p ps)
  let ?w1 = "snd (platformStep c ex p w)"
  have step: "passOutcome w (fst (platformStep c ex p w)) ?w1" by (rule platformStep_outcome)
  show ?case
  proof (cases "fst (platformStep c ex p w)")
    case (Inl e)
    then show ?thesis using step
      by (simp add: platformLoop_Cons_fst platformLoop_Cons_snd del: platformLoop.simps)
  next
    case (Inr u)
    then have "passOutcome w (Inr ()) ?w1" using step by simp
    then have "passOutcome w (fst (platformLoop c ex ps ?w1)) (snd (platformLoop c ex ps ?w1))"
      using Cons.IH by (rule passOutcome_trans)
    then show ?thesis using Inr
      by (simp add: platformLoop_Cons_fst platformLoop_Cons_snd del: platformLoop.simps)
  qed
qed

lemma grows_dbCalls [simp]: "dbCalls w \<le> n \<Longrightarrow> grows Q w (w\<lparr>dbCalls := n\<rparr>)"
  by (simp add: grows_def sameEnv_def)

lemma noFailure_dbCalls: "\<not> dbFails w (dbCalls w) \<Longrightarrow> noFailure w (w\<lparr>dbCalls := Suc (dbCalls w)\<rparr>)"
  unfolding noFailure_def by (auto simp: less_Suc_eq_le)

lemma passOutcome_dbCalls [simp]: "passOutcome w r (w\<lparr>dbCalls := n\<rparr>) \<longleftrightarrow> r = Inr () \<or> r = Inl DbFailure"
  by (auto simp: passOutcome_def)

lemma campaignLoop_failed:
  "dbFails w (dbCalls w) \<Longrightarrow>
   campaignLoop (c # cs) w = (Inl DbFailure, w\<lparr>dbCalls := Suc (dbCalls w)\<rparr>)"
  by (simp add: getCampaignPosts_def dbStatement_def)

lemma campaignLoop_ok:
  "\<not> dbFails w (dbCalls w) \<Longrightarrow>
   campaignLoop (c # cs) w =
     (case platformLoop c (filter (\<lambda>p. campaignId p = campaign_id c) (adPosts w)) platforms
             (w\<lparr>dbCalls := Suc (dbCalls w)\<rparr>) of
        (Inl e, w2) \<Rightarrow> (Inl e, w2)
      | (Inr _, w2) \<Rightarrow> campaignLoop cs w2)"
  by (simp add: getCampaignPosts_def dbStatement_def)

text \<open>
  What one campaign does to the world, for the three properties that are carried through
  the loops.
\<close>

lemma campaignLoop_step:
  assumes "\<not> dbFails w (dbCalls w)"
    and "platformLoop c (filter (\<lambda>p. campaignId p = campaign_id c) (adPosts w)) platforms
           (w\<lparr>dbCalls := Suc (dbCalls w)\<rparr>) = (r, w2)"
  shows "grows created w w2" and "passOutcome w r w2" and "r = Inr () \<Longrightarrow> noFailure w w2"
proof -
  let ?ex = "filter (\<lambda>p. campaignId p = campaign_id c) (adPosts w)"
  let ?w1 = "w\<lparr>dbCalls := Suc (dbCalls w)\<rparr>"
  have w2: "w2 = snd (platformLoop c ?ex platforms ?w1)" and r: "r = fst (platformLoop c ?ex platforms ?w1)"
    using assms(2) by simp_all
  have "grows (\<lambda>row. campaignId row = campaign_id c \<and> created row) ?w1 w2"
    unfolding w2 by (rule platformLoop_grows)
  then have "grows created ?w1 w2" by (rule grows_weaken) simp
  moreover have "grows created w ?w1" by simp
  ultimately show g: "grows created w w2" using grows_trans by blast
  have "passOutcome ?w1 r w2" unfolding w2 r by (rule platformLoop_outcome)
  then show "passOutcome w r w2" by (simp add: passOutcome_def)
  assume "r = Inr ()"
  then have "noFailure ?w1 w2" unfolding w2 r by (rule platformLoop_noFailure)
  moreover have "noFailure w ?w1" using assms(1) by (rule noFailure_dbCalls)
  moreover have "sameEnv w ?w1" by (simp add: sameEnv_def)
  ultimately show "noFailure w w2" using noFailure_trans by blast
qed

lemma campaignLoop_all:
  "grows created w (snd (campaignLoop cs w))
   \<and> passOutcome w (fst (campaignLoop cs w)) (snd (campaignLoop cs w))
   \<and> (fst (campaignLoop cs w) = Inr () \<longrightarrow> noFailure w (snd (campaignLoop cs w)))"
proof (induction cs arbitrary: w)
  case Nil
  then show ?case by (simp add: passOutcome_def)
next
  case (Cons c cs)
  show ?case
  proof (cases "dbFails w (dbCalls w)")
    case True
    then show ?thesis by (simp add: campaignLoop_failed del: campaignLoop.simps)
  next
    case False
    let ?ex = "filter (\<lambda>p. campaignId p = campaign_id c) (adPosts w)"
    let ?w1 = "w\<lparr>dbCalls := Suc (dbCalls w)\<rparr>"
    obtain r w2 where pl: "platformLoop c ?ex platforms ?w1 = (r, w2)"
      by (cases "platformLoop c ?ex platforms ?w1")
    note st = campaignLoop_step [OF False pl]
    show ?thesis
    proof (cases r)
      case (Inl e)
      then have "campaignLoop (c # cs) w = (Inl e, w2)"
        using False pl by (simp add: campaignLoop_ok del: campaignLoop.simps)
      then show ?thesis using st(1,2) Inl by simp
    next
      case (Inr u)
      then have eq: "campaignLoop (c # cs) w = campaignLoop cs w2"
        using False pl by (simp add: campaignLoop_ok del: campaignLoop.simps)
      have r: "r = Inr ()" using Inr by simp
      note ih = Cons.IH [of w2]
      have g: "grows created w (snd (campaignLoop cs w2))"
        using st(1) ih grows_trans by blast
      have o: "passOutcome w (fst (campaignLoop cs w2)) (snd (campaignLoop cs w2))"
        using st(2) ih unfolding r by (blast intro: passOutcome_trans)
      have n: "fst (campaignLoop cs w2) = Inr () \<longrightarrow> noFailure w (snd (campaignLoop cs w2))"
        using st(3) [OF r] st(1) ih noFailure_trans grows_sameEnv by blast
      show ?thesis unfolding eq using g o n by blast
    qed
  qed
qed

lemma checkAndSchedulePosts_failed:
  "dbFails w (dbCalls w) \<Longrightarrow>
   checkAndSchedulePosts w = (Inl DbFailure, w\<lparr>dbCalls := Suc (dbCalls w)\<rparr>)"
  by (simp add: checkAndSchedulePosts_def getActiveCampaigns_def dbStatement_def)

lemma checkAndSchedulePosts_ok:
  "\<not> dbFails w (dbCalls w) \<Longrightarrow>
   checkAndSchedulePosts w =
     campaignLoop (filter (\<lambda>c. campaign_status c = ''active'') (campaigns w)) (w\<lparr>dbCalls := Suc (dbCalls w)\<rparr>)"
  by (simp add: checkAndSchedulePosts_def getActiveCampaigns_def dbStatement_def)

lemma checkAndSchedulePosts_all:
  "grows created w (snd (checkAndSchedulePosts w))
   \<and> passOutcome w (fst (checkAndSchedulePosts w)) (snd (checkAndSchedulePosts w))
   \<and> (fst (checkAndSchedulePosts w) = Inr () \<longrightarrow> noFailure w (snd (checkAndSchedulePosts w)))"
proof (cases "dbFails w (dbCalls w)")
  case True
  then show ?thesis by (simp add: checkAndSchedulePosts_failed)
next
  case False
  let ?w1 = "w\<lparr>dbCalls := Suc (dbCalls w)\<rparr>"
  let ?cs = "filter (\<lambda>c. campaign_status c = ''active'') (campaigns w)"
  note al = campaignLoop_all [of ?w1 ?cs]
  have eq: "checkAndSchedulePosts w = campaignLoop ?cs ?w1" using False by (rule checkAndSchedulePosts_ok)
  have g0: "grows created w ?w1" by simp
  have g: "grows created w (snd (campaignLoop ?cs ?w1))"
    using g0 al grows_trans by blast
  have o: "passOutcome w (fst (campaignLoop ?cs ?w1)) (snd (campaignLoop ?cs ?w1))"
    using al by (simp add: passOutcome_def)
  have n0: "noFailure w ?w1" using False by (rule noFailure_dbCalls)
  have n: "fst (campaignLoop ?cs ?w1) = Inr () \<longrightarrow> noFailure w (snd (campaignLoop ?cs ?w1))"
    using n0 g0 al noFailure_trans grows_sameEnv by blast
  show ?thesis unfolding eq using g o n by blast
qed

lemma checkAndSchedulePosts_grows: "grows created w (snd (checkAndSchedulePosts w))"
  using checkAndSchedulePosts_all by blast

lemma checkAndSchedulePosts_noFailure:
  "fst (checkAndSchedulePosts w) = Inr () \<Longrightarrow> noFailure w (snd (checkAndSchedulePosts w))"
  using checkAndSchedulePosts_all by blast

lemma checkAndSchedulePosts_outcome:
  "passOutcome w (fst (checkAndSchedulePosts w)) (snd (checkAndSchedulePosts w))"
  using checkAndSchedulePosts_all by blast

subsection \<open>The window of 24 hours\<close>

text \<open>The definitions that evaluate a pass on a concrete world.\<close>

lemmas run_defs = checkAndSchedulePosts_def getActiveCampaigns_def dbStatement_def
     getCampaignPosts_def platforms_def platformStep_def newDate_def
     scheduledPosts_def readBack_def isAfter_def isBefore_def createAdPost_def Let_def
     insertedRow_def

text \<open>
  Claim C1 at a failing input: campaign 1 is active and has a facebook post whose time
  is half a second after the clock, inside the window of 24 hours. The filter reads the
  time back as the Invalid Date and keeps nothing, so the pass creates a post for each
  of the five platforms, and the campaign has two facebook posts afterwards: the old
  one, with id 1, and a new one, with id 3.
\<close>

theorem checkAndSchedulePosts_duplicates_in_window:
  "campaign1 \<in> set (campaigns earlyWorld) \<and> campaign_status campaign1 = ''active''
   \<and> post1 \<in> set (adPosts earlyWorld)
   \<and> campaignId post1 = campaign_id campaign1 \<and> platform post1 = ''facebook''
   \<and> clock earlyWorld (clockReads earlyWorld) < postTime post1
   \<and> postTime post1 < addHours (clock earlyWorld (clockReads earlyWorld)) 24
   \<and> fst (checkAndSchedulePosts earlyWorld) = Inr ()
   \<and> length (adPosts earlyWorld) = 2
   \<and> length (adPosts (snd (checkAndSchedulePosts earlyWorld))) = 7
   \<and> map post_id (filter (\<lambda>row. campaignId row = campaign_id campaign1 \<and> platform row = ''facebook'')
        (adPosts (snd (checkAndSchedulePosts earlyWorld)))) = [1, 3]"
  by (simp add: run_defs earlyWorld_def baseWorld_def campaign1_def post1_def post2_def
      addHours_def msPerHour_def)

subsection \<open>The time of a new post\<close>


section \<open>Performance aggregator: theorems\<close>

lemma getCampaignById_failed:
  "dbFails w (dbCalls w) \<Longrightarrow>
   getCampaignById w i =
     (Inr None, w\<lparr>dbCalls := Suc (dbCalls w), console := console w @ [''Error getting campaign:'']\<rparr>)"
  by (simp add: getCampaignById_def dbStatement_def consoleLog_def)

lemma getCampaignById_ok:
  "\<not> dbFails w (dbCalls w) \<Longrightarrow>
   getCampaignById w i =
     (Inr (case filter (\<lambda>c. campaign_id c = i) (campaigns w) of [] \<Rightarrow> None | c # _ \<Rightarrow> Some c),
      w\<lparr>dbCalls := Suc (dbCalls w)\<rparr>)"
  by (simp add: getCampaignById_def dbStatement_def split: list.splits)

lemma getAllAdPosts_failed:
  "dbFails w (dbCalls w) \<Longrightarrow>
   getAllAdPosts w cid = (Inl DbFailure, w\<lparr>dbCalls := Suc (dbCalls w)\<rparr>)"
  by (simp add: getAllAdPosts_def dbStatement_def)

lemma getAllAdPosts_ok:
  "\<not> dbFails w (dbCalls w) \<Longrightarrow>
   getAllAdPosts w (Some i) = (Inr (selectedPosts w i), w\<lparr>dbCalls := Suc (dbCalls w)\<rparr>)"
  by (simp add: getAllAdPosts_def dbStatement_def selectedPosts_def)

text \<open>The four ways through \<^verbatim>\<open>getCampaignPerformance\<close>.\<close>

lemma getCampaignPerformance_failed1:
  "dbFails w (dbCalls w) \<Longrightarrow>
   getCampaignPerformance w i =
     (Inr None, w\<lparr>dbCalls := Suc (dbCalls w), console := console w @ [''Error getting campaign:'']\<rparr>)"
  by (simp add: getCampaignPerformance_def getCampaignById_failed)

lemma getCampaignPerformance_absent:
  "\<not> dbFails w (dbCalls w) \<Longrightarrow> filter (\<lambda>c. campaign_id c = i) (campaigns w) = [] \<Longrightarrow>
   getCampaignPerformance w i = (Inr None, w\<lparr>dbCalls := Suc (dbCalls w)\<rparr>)"
  by (simp add: getCampaignPerformance_def getCampaignById_ok)

lemma getCampaignPerformance_failed2:
  "\<not> dbFails w (dbCalls w) \<Longrightarrow> filter (\<lambda>c. campaign_id c = i) (campaigns w) = c # cs \<Longrightarrow>
   dbFails w (Suc (dbCalls w)) \<Longrightarrow>
   getCampaignPerformance w i =
     (Inr None, w\<lparr>dbCalls := Suc (Suc (dbCalls w)),
                  console := console w @ [''Error getting campaign performance:'']\<rparr>)"
  by (simp add: getCampaignPerformance_def getCampaignById_ok getAllAdPosts_failed consoleLog_def)

lemma getCampaignPerformance_ok:
  "\<not> dbFails w (dbCalls w) \<Longrightarrow> filter (\<lambda>c. campaign_id c = i) (campaigns w) = c # cs \<Longrightarrow>
   \<not> dbFails w (Suc (dbCalls w)) \<Longrightarrow>
   getCampaignPerformance w i =
     (Inr (Some (performanceOf c (selectedPosts w i))), w\<lparr>dbCalls := Suc (Suc (dbCalls w))\<rparr>)"
  by (simp add: getCampaignPerformance_def getCampaignById_ok getAllAdPosts_ok performanceOf_def Let_def
      selectedPosts_def)

lemma getCampaignPerformance_Some:
  assumes "fst (getCampaignPerformance w i) = Inr (Some perf)"
  shows "\<exists>c. perf = performanceOf c (selectedPosts w i)"
proof (cases "dbFails w (dbCalls w)")
  case True
  then show ?thesis using assms by (simp add: getCampaignPerformance_failed1)
next
  case ok1: False
  show ?thesis
  proof (cases "filter (\<lambda>c. campaign_id c = i) (campaigns w)")
    case Nil
    then show ?thesis using assms ok1 by (simp add: getCampaignPerformance_absent)
  next
    case (Cons c cs)
    show ?thesis
    proof (cases "dbFails w (Suc (dbCalls w))")
      case True
      then show ?thesis using assms ok1 Cons by (simp add: getCampaignPerformance_failed2)
    next
      case False
      then have "perf = performanceOf c (selectedPosts w i)"
        using assms ok1 Cons by (simp add: getCampaignPerformance_ok)
      then show ?thesis ..
    qed
  qed
qed

subsection \<open>Sums and rates\<close>

lemma foldl_total: "foldl (\<lambda>sum post. sum + f post) a posts = a + total f posts"
  by (induction posts arbitrary: a) (simp_all add: total_def)

lemma rate_guarded: "b \<noteq> 0 \<Longrightarrow> timesHundred (divideNumbers a b) = rate a b"
  by (simp add: divideNumbers_def rate_def)

lemma total_Nil [simp]: "total f [] = 0"
  by (simp add: total_def)

lemma total_Cons [simp]: "total f (p # ps) = f p + total f ps"
  by (simp add: total_def)

lemma postsOf_Nil [simp]: "postsOf name [] = []"
  by (simp add: postsOf_def)

lemma postsOf_Cons:
  "postsOf name (p # ps) = (if platform p = name then p # postsOf name ps else postsOf name ps)"
  by (simp add: postsOf_def)

text \<open>One post goes into the bucket of its platform and into no other.\<close>

lemma bucket_accumulate:
  assumes "name \<in> set platforms"
  shows "bucket name (accumulate b post)
           = (if platform post = name then addMetrics post (bucket name b) else bucket name b)"
proof -
  from assms have "name = ''facebook'' \<or> name = ''instagram'' \<or> name = ''twitter''
    \<or> name = ''whatsapp'' \<or> name = ''telegram''"
    by (simp add: platforms_def)
  moreover have "bucket ''facebook'' (accumulate b post)
      = (if platform post = ''facebook'' then addMetrics post (bucket ''facebook'' b) else bucket ''facebook'' b)"
    by (simp add: bucket_def accumulate_def)
  moreover have "bucket ''instagram'' (accumulate b post)
      = (if platform post = ''instagram'' then addMetrics post (bucket ''instagram'' b) else bucket ''instagram'' b)"
    by (simp add: bucket_def accumulate_def)
  moreover have "bucket ''twitter'' (accumulate b post)
      = (if platform post = ''twitter'' then addMetrics post (bucket ''twitter'' b) else bucket ''twitter'' b)"
    by (simp add: bucket_def accumulate_def)
  moreover have "bucket ''whatsapp'' (accumulate b post)
      = (if platform post = ''whatsapp'' then addMetrics post (bucket ''whatsapp'' b) else bucket ''whatsapp'' b)"
    by (simp add: bucket_def accumulate_def)
  moreover have "bucket ''telegram'' (accumulate b post)
      = (if platform post = ''telegram'' then addMetrics post (bucket ''telegram'' b) else bucket ''telegram'' b)"
    by (simp add: bucket_def accumulate_def)
  ultimately show ?thesis by blast
qed

lemma bucket_foldl_accumulate:
  assumes "name \<in> set platforms"
  shows "impressions_pa (bucket name (foldl accumulate b posts))
           = impressions_pa (bucket name b) + total impressions (postsOf name posts)
       \<and> clicks_pa (bucket name (foldl accumulate b posts))
           = clicks_pa (bucket name b) + total clicks (postsOf name posts)
       \<and> leadsCaptured_pa (bucket name (foldl accumulate b posts))
           = leadsCaptured_pa (bucket name b) + total leadsCaptured (postsOf name posts)"
proof (induction posts arbitrary: b)
  case Nil
  then show ?case by simp
next
  case (Cons post posts)
  show ?case
    using Cons.IH [of "accumulate b post"] bucket_accumulate [OF assms, of b post]
    by (simp add: postsOf_Cons addMetrics_def)
qed

lemma bucket_platformRates: "bucket name (platformRates b) = withRates (bucket name b)"
  by (simp add: bucket_def platformRates_def)

lemma bucket_zeroBreakdown: "bucket name zeroBreakdown = zeroAnalytics"
  by (simp add: bucket_def zeroBreakdown_def)

text \<open>What the record built from the posts holds, overall.\<close>

lemma performanceOf_overall:
  "totalPosts (performanceOf c posts) = length posts
   \<and> totalImpressions (performanceOf c posts) = total impressions posts
   \<and> totalClicks (performanceOf c posts) = total clicks posts
   \<and> totalLeads (performanceOf c posts) = total leadsCaptured posts
   \<and> ctr (performanceOf c posts)
       = (if total impressions posts > 0 then rate (total clicks posts) (total impressions posts)
          else Num 0)
   \<and> conversionRate (performanceOf c posts)
       = (if total clicks posts > 0 then rate (total leadsCaptured posts) (total clicks posts)
          else Num 0)"
proof (cases "length posts = 0")
  case True
  then show ?thesis by (simp add: performanceOf_def)
next
  case False
  then show ?thesis by (simp add: performanceOf_def Let_def foldl_total rate_guarded)
qed

text \<open>What it holds in the bucket of one of the five platforms.\<close>

lemma performanceOf_bucket:
  assumes "name \<in> set platforms"
  shows "impressions_pa (bucket name (platformBreakdown (performanceOf c posts)))
           = total impressions (postsOf name posts)
       \<and> clicks_pa (bucket name (platformBreakdown (performanceOf c posts)))
           = total clicks (postsOf name posts)
       \<and> leadsCaptured_pa (bucket name (platformBreakdown (performanceOf c posts)))
           = total leadsCaptured (postsOf name posts)
       \<and> ctr_pa (bucket name (platformBreakdown (performanceOf c posts)))
           = (if total impressions (postsOf name posts) > 0
              then rate (total clicks (postsOf name posts)) (total impressions (postsOf name posts))
              else Num 0)
       \<and> conversionRate_pa (bucket name (platformBreakdown (performanceOf c posts)))
           = (if total clicks (postsOf name posts) > 0
              then rate (total leadsCaptured (postsOf name posts)) (total clicks (postsOf name posts))
              else Num 0)"
proof (cases "length posts = 0")
  case True
  then show ?thesis
    by (simp add: performanceOf_def bucket_zeroBreakdown zeroAnalytics_def)
next
  case False
  have z: "impressions_pa (bucket name zeroBreakdown) = 0" "clicks_pa (bucket name zeroBreakdown) = 0"
    "leadsCaptured_pa (bucket name zeroBreakdown) = 0"
    by (simp_all add: bucket_zeroBreakdown zeroAnalytics_def)
  note f = bucket_foldl_accumulate [OF assms, of zeroBreakdown posts, unfolded z]
  have pb: "platformBreakdown (performanceOf c posts) = platformRates (foldl accumulate zeroBreakdown posts)"
    using False by (simp add: performanceOf_def Let_def)
  show ?thesis
    unfolding pb bucket_platformRates using f
    by (simp add: withRates_def rate_guarded)
qed

subsection \<open>A campaign without posts\<close>

text \<open>
  For an id other than 0: when both reads succeed, a campaign with the id exists and no
  post belongs to it, the result is the zeroed record with the five platform entries.
\<close>

lemma getCampaignPerformance_no_posts:
  assumes "\<not> dbFails w (dbCalls w)" and "\<not> dbFails w (Suc (dbCalls w))"
    and "i \<noteq> 0" and "c \<in> set (campaigns w)" and "campaign_id c = i"
    and "\<forall>p \<in> set (adPosts w). campaignId p \<noteq> i"
  shows "\<exists>c'. c' \<in> set (campaigns w) \<and> campaign_id c' = i
           \<and> fst (getCampaignPerformance w i) =
               Inr (Some \<lparr>campaign = c', totalPosts = 0, totalImpressions = 0, totalClicks = 0,
                          totalLeads = 0, ctr = Num 0, conversionRate = Num 0,
                          platformBreakdown = zeroBreakdown\<rparr>)"
proof -
  from assms(4,5) have "c \<in> set (filter (\<lambda>c. campaign_id c = i) (campaigns w))" by simp
  then obtain c' cs where f: "filter (\<lambda>c. campaign_id c = i) (campaigns w) = c' # cs"
    by (cases "filter (\<lambda>c. campaign_id c = i) (campaigns w)") auto
  then have c': "c' \<in> set (campaigns w)" "campaign_id c' = i"
    using filter_head_mem [of "\<lambda>c. campaign_id c = i" "campaigns w" c' cs] by simp_all
  have "filter (\<lambda>p. campaignId p = i) (adPosts w) = []"
    using assms(6) by (simp add: filter_empty_conv)
  then have "selectedPosts w i = []" using assms(3) by (simp add: selectedPosts_def)
  then have "fst (getCampaignPerformance w i) = Inr (Some (performanceOf c' []))"
    using assms(1,2) f by (simp add: getCampaignPerformance_ok)
  then show ?thesis using c' by (simp add: performanceOf_def)
qed

text \<open>
  Claim C6 at a failing input: the campaign with the id 0 exists and no post belongs to
  it, and the table holds the two posts of campaign 1. \<^verbatim>\<open>getAllAdPosts(0)\<close> takes the id
  0 for no id, since \<^verbatim>\<open>if (campaignId)\<close> is false for it, and selects every post, so the
  result for campaign 0 counts two posts, 500 impressions, 60 clicks and 7 leads.
\<close>

theorem getCampaignPerformance_id_zero:
  "campaign0 \<in> set (campaigns zeroIdWorld) \<and> campaign_id campaign0 = 0
   \<and> filter (\<lambda>p. campaignId p = 0) (adPosts zeroIdWorld) = []
   \<and> \<not> dbFails zeroIdWorld (dbCalls zeroIdWorld) \<and> \<not> dbFails zeroIdWorld (Suc (dbCalls zeroIdWorld))
   \<and> (\<exists>perf. fst (getCampaignPerformance zeroIdWorld 0) = Inr (Some perf)
         \<and> campaign perf = campaign0
         \<and> totalPosts perf = 2
         \<and> totalImpressions perf = 500
         \<and> totalClicks perf = 60
         \<and> totalLeads perf = 7
         \<and> ctr perf = Num 12)"
proof -
  have ok: "\<not> dbFails zeroIdWorld (dbCalls zeroIdWorld)" "\<not> dbFails zeroIdWorld (Suc (dbCalls zeroIdWorld))"
    by (simp_all add: zeroIdWorld_def baseWorld_def)
  have f: "filter (\<lambda>c. campaign_id c = 0) (campaigns zeroIdWorld) = campaign0 # []"
    by (simp add: zeroIdWorld_def campaign0_def campaign1_def)
  have sel: "selectedPosts zeroIdWorld 0 = [post1, post2]"
    by (simp add: selectedPosts_def zeroIdWorld_def baseWorld_def post1_def post2_def)
  have e: "fst (getCampaignPerformance zeroIdWorld 0) = Inr (Some (performanceOf campaign0 [post1, post2]))"
    unfolding sel [symmetric] using getCampaignPerformance_ok [OF ok(1) f ok(2)] by simp
  have n: "filter (\<lambda>p. campaignId p = 0) (adPosts zeroIdWorld) = []"
    by (simp add: zeroIdWorld_def baseWorld_def post1_def post2_def)
  have c: "campaign0 \<in> set (campaigns zeroIdWorld)" "campaign_id campaign0 = 0"
    by (simp_all add: zeroIdWorld_def campaign0_def)
  have r: "rate 60 500 = Num 12" by code_simp
  have t: "total impressions [post1, post2] = 500" "total clicks [post1, post2] = 60"
    "total leadsCaptured [post1, post2] = 7"
    by (simp_all add: post1_def post2_def)
  note o = performanceOf_overall [of campaign0 "[post1, post2]", unfolded t]
  have v: "campaign (performanceOf campaign0 [post1, post2]) = campaign0"
    by (simp add: performanceOf_def Let_def)
  have w: "totalPosts (performanceOf campaign0 [post1, post2]) = 2"
    "totalImpressions (performanceOf campaign0 [post1, post2]) = 500"
    "totalClicks (performanceOf campaign0 [post1, post2]) = 60"
    "totalLeads (performanceOf campaign0 [post1, post2]) = 7"
    "ctr (performanceOf campaign0 [post1, post2]) = Num 12"
    using o r by simp_all
  show ?thesis using c n ok e v w by blast
qed

subsection \<open>The rates\<close>

text \<open>
  Claim C7: in every result of \<^verbatim>\<open>getCampaignPerformance\<close> the sums are those of the
  posts read for the campaign, and the sums of each of the five platform entries are
  those of the posts of that platform. Every rate, overall and of each platform entry,
  is the double \<^verbatim>\<open>(a / b) * 100\<close>, with clicks over impressions or leads over clicks,
  when the denominator is positive, and exactly 0 when it is not; it is a finite number
  in both cases, never \<^verbatim>\<open>NaN\<close> or an infinity.
\<close>

theorem getCampaignPerformance_rates:
  assumes "fst (getCampaignPerformance w i) = Inr (Some perf)"
  shows "totalPosts perf = length (selectedPosts w i)
       \<and> totalImpressions perf = total impressions (selectedPosts w i)
       \<and> totalClicks perf = total clicks (selectedPosts w i)
       \<and> totalLeads perf = total leadsCaptured (selectedPosts w i)
       \<and> ctr perf = (if totalImpressions perf > 0
                      then Num (roundDouble (roundDouble (of_int (totalClicks perf) / of_int (totalImpressions perf)) * 100))
                      else Num 0)
       \<and> conversionRate perf = (if totalClicks perf > 0
                      then Num (roundDouble (roundDouble (of_int (totalLeads perf) / of_int (totalClicks perf)) * 100))
                      else Num 0)
       \<and> (\<forall>name \<in> set platforms.
            impressions_pa (bucket name (platformBreakdown perf))
              = total impressions (postsOf name (selectedPosts w i))
          \<and> clicks_pa (bucket name (platformBreakdown perf))
              = total clicks (postsOf name (selectedPosts w i))
          \<and> leadsCaptured_pa (bucket name (platformBreakdown perf))
              = total leadsCaptured (postsOf name (selectedPosts w i))
          \<and> ctr_pa (bucket name (platformBreakdown perf))
              = (if impressions_pa (bucket name (platformBreakdown perf)) > 0
                 then Num (roundDouble (roundDouble
                        (of_int (clicks_pa (bucket name (platformBreakdown perf)))
                         / of_int (impressions_pa (bucket name (platformBreakdown perf)))) * 100))
                 else Num 0)
          \<and> conversionRate_pa (bucket name (platformBreakdown perf))
              = (if clicks_pa (bucket name (platformBreakdown perf)) > 0
                 then Num (roundDouble (roundDouble
                        (of_int (leadsCaptured_pa (bucket name (platformBreakdown perf)))
                         / of_int (clicks_pa (bucket name (platformBreakdown perf)))) * 100))
                 else Num 0))"
proof -
  from assms obtain c where perf: "perf = performanceOf c (selectedPosts w i)"
    using getCampaignPerformance_Some by blast
  note o = performanceOf_overall [of c "selectedPosts w i", folded perf]
  have overall: "totalPosts perf = length (selectedPosts w i)
       \<and> totalImpressions perf = total impressions (selectedPosts w i)
       \<and> totalClicks perf = total clicks (selectedPosts w i)
       \<and> totalLeads perf = total leadsCaptured (selectedPosts w i)
       \<and> ctr perf = (if totalImpressions perf > 0
                      then Num (roundDouble (roundDouble (of_int (totalClicks perf) / of_int (totalImpressions perf)) * 100))
                      else Num 0)
       \<and> conversionRate perf = (if totalClicks perf > 0
                      then Num (roundDouble (roundDouble (of_int (totalLeads perf) / of_int (totalClicks perf)) * 100))
                      else Num 0)"
    using o by (simp add: rate_def)
  have each: "\<forall>name \<in> set platforms.
            impressions_pa (bucket name (platformBreakdown perf))
              = total impressions (postsOf name (selectedPosts w i))
          \<and> clicks_pa (bucket name (platformBreakdown perf))
              = total clicks (postsOf name (selectedPosts w i))
          \<and> leadsCaptured_pa (bucket name (platformBreakdown perf))
              = total leadsCaptured (postsOf name (selectedPosts w i))
          \<and> ctr_pa (bucket name (platformBreakdown perf))
              = (if impressions_pa (bucket name (platformBreakdown perf)) > 0
                 then Num (roundDouble (roundDouble
                        (of_int (clicks_pa (bucket name (platformBreakdown perf)))
                         / of_int (impressions_pa (bucket name (platformBreakdown perf)))) * 100))
                 else Num 0)
          \<and> conversionRate_pa (bucket name (platformBreakdown perf))
              = (if clicks_pa (bucket name (platformBreakdown perf)) > 0
                 then Num (roundDouble (roundDouble
                        (of_int (leadsCaptured_pa (bucket name (platformBreakdown perf)))
                         / of_int (clicks_pa (bucket name (platformBreakdown perf)))) * 100))
                 else Num 0)"
  proof
    fix name assume n: "name \<in> set platforms"
    note b = performanceOf_bucket [OF n, of c "selectedPosts w i", folded perf]
    show "impressions_pa (bucket name (platformBreakdown perf))
              = total impressions (postsOf name (selectedPosts w i))
          \<and> clicks_pa (bucket name (platformBreakdown perf))
              = total clicks (postsOf name (selectedPosts w i))
          \<and> leadsCaptured_pa (bucket name (platformBreakdown perf))
              = total leadsCaptured (postsOf name (selectedPosts w i))
          \<and> ctr_pa (bucket name (platformBreakdown perf))
              = (if impressions_pa (bucket name (platformBreakdown perf)) > 0
                 then Num (roundDouble (roundDouble
                        (of_int (clicks_pa (bucket name (platformBreakdown perf)))
                         / of_int (impressions_pa (bucket name (platformBreakdown perf)))) * 100))
                 else Num 0)
          \<and> conversionRate_pa (bucket name (platformBreakdown perf))
              = (if clicks_pa (bucket name (platformBreakdown perf)) > 0
                 then Num (roundDouble (roundDouble
                        (of_int (leadsCaptured_pa (bucket name (platformBreakdown perf)))
                         / of_int (clicks_pa (bucket name (platformBreakdown perf)))) * 100))
                 else Num 0)"
      using b by (simp add: rate_def)
  qed
  show ?thesis using overall each by blast
qed

text \<open>
  The witness of C7: campaign 1 with a scheduled facebook post, a posted twitter post
  (500 impressions, 60 clicks, 7 leads) and a posted facebook post (300 impressions, 45
  clicks, no lead). The rates are the doubles that the code returns: 13.125 and
  6.666666666666667 overall, 12 and 11.666666666666666 for twitter, 15 and 0 for
  facebook, and 0 for instagram, which has no post.
\<close>

theorem getCampaignPerformance_rates_witness:
  "\<exists>perf. fst (getCampaignPerformance ratesWorld 1) = Inr (Some perf)
     \<and> totalPosts perf = 3
     \<and> totalImpressions perf = 800 \<and> totalClicks perf = 105 \<and> totalLeads perf = 7
     \<and> ctr perf = Num (105 / 8)
     \<and> conversionRate perf = Num (7505999378950827 / 1125899906842624)
     \<and> impressions_pa (bucket ''twitter'' (platformBreakdown perf)) = 500
     \<and> clicks_pa (bucket ''twitter'' (platformBreakdown perf)) = 60
     \<and> ctr_pa (bucket ''twitter'' (platformBreakdown perf)) = Num 12
     \<and> conversionRate_pa (bucket ''twitter'' (platformBreakdown perf))
         = Num (6567749456581973 / 562949953421312)
     \<and> impressions_pa (bucket ''facebook'' (platformBreakdown perf)) = 300
     \<and> clicks_pa (bucket ''facebook'' (platformBreakdown perf)) = 45
     \<and> leadsCaptured_pa (bucket ''facebook'' (platformBreakdown perf)) = 0
     \<and> ctr_pa (bucket ''facebook'' (platformBreakdown perf)) = Num 15
     \<and> conversionRate_pa (bucket ''facebook'' (platformBreakdown perf)) = Num 0
     \<and> impressions_pa (bucket ''instagram'' (platformBreakdown perf)) = 0
     \<and> ctr_pa (bucket ''instagram'' (platformBreakdown perf)) = Num 0
     \<and> clicks_pa (bucket ''instagram'' (platformBreakdown perf)) = 0
     \<and> conversionRate_pa (bucket ''instagram'' (platformBreakdown perf)) = Num 0"
proof -
  have rates_at: "rate 105 800 = Num (105 / 8)"
    "rate 7 105 = Num (7505999378950827 / 1125899906842624)"
    "rate 60 500 = Num 12"
    "rate 7 60 = Num (6567749456581973 / 562949953421312)"
    "rate 45 300 = Num 15"
    "rate 0 45 = Num 0"
    by code_simp+
  define perf where "perf = performanceOf campaign1 [post1, post2, post3]"
  have ok: "\<not> dbFails ratesWorld (dbCalls ratesWorld)" "\<not> dbFails ratesWorld (Suc (dbCalls ratesWorld))"
    by (simp_all add: ratesWorld_def baseWorld_def)
  have f: "filter (\<lambda>c. campaign_id c = 1) (campaigns ratesWorld) = campaign1 # []"
    by (simp add: ratesWorld_def baseWorld_def campaign1_def)
  have sel: "selectedPosts ratesWorld 1 = [post1, post2, post3]"
    by (simp add: selectedPosts_def ratesWorld_def baseWorld_def post1_def post2_def post3_def)
  have e: "fst (getCampaignPerformance ratesWorld 1) = Inr (Some perf)"
    unfolding perf_def sel [symmetric] using getCampaignPerformance_ok [OF ok(1) f ok(2)] by simp
  have p: "''twitter'' \<in> set platforms" "''facebook'' \<in> set platforms" "''instagram'' \<in> set platforms"
    by (simp_all add: platforms_def)
  have t: "total impressions [post1, post2, post3] = 800" "total clicks [post1, post2, post3] = 105"
    "total leadsCaptured [post1, post2, post3] = 7"
    by (simp_all add: post1_def post2_def post3_def)
  have tw: "postsOf ''twitter'' [post1, post2, post3] = [post2]"
    and fb: "postsOf ''facebook'' [post1, post2, post3] = [post1, post3]"
    and ig: "postsOf ''instagram'' [post1, post2, post3] = []"
    by (simp_all add: postsOf_Cons post1_def post2_def post3_def)
  have m: "total impressions [post2] = 500" "total clicks [post2] = 60" "total leadsCaptured [post2] = 7"
    "total impressions [post1, post3] = 300" "total clicks [post1, post3] = 45"
    "total leadsCaptured [post1, post3] = 0"
    by (simp_all add: post1_def post2_def post3_def)
  note r = getCampaignPerformance_rates [OF e, unfolded sel, folded rate_def]
  have overall: "totalPosts perf = 3" "totalImpressions perf = 800" "totalClicks perf = 105"
    "totalLeads perf = 7"
    using r t by simp_all
  have rates: "ctr perf = Num (105 / 8)"
    "conversionRate perf = Num (7505999378950827 / 1125899906842624)"
    using r overall by (simp_all add: rates_at)
  have twb: "impressions_pa (bucket ''twitter'' (platformBreakdown perf)) = 500"
    "clicks_pa (bucket ''twitter'' (platformBreakdown perf)) = 60"
    "leadsCaptured_pa (bucket ''twitter'' (platformBreakdown perf)) = 7"
    using r p(1) tw m by simp_all
  have twr: "ctr_pa (bucket ''twitter'' (platformBreakdown perf)) = Num 12"
    "conversionRate_pa (bucket ''twitter'' (platformBreakdown perf))
         = Num (6567749456581973 / 562949953421312)"
    using r p(1) twb by (simp_all add: rates_at)
  have fbb: "impressions_pa (bucket ''facebook'' (platformBreakdown perf)) = 300"
    "clicks_pa (bucket ''facebook'' (platformBreakdown perf)) = 45"
    "leadsCaptured_pa (bucket ''facebook'' (platformBreakdown perf)) = 0"
    using r p(2) fb m by simp_all
  have fbr: "ctr_pa (bucket ''facebook'' (platformBreakdown perf)) = Num 15"
    "conversionRate_pa (bucket ''facebook'' (platformBreakdown perf)) = Num 0"
    using r p(2) fbb by (simp_all add: rates_at)
  have igb: "impressions_pa (bucket ''instagram'' (platformBreakdown perf)) = 0"
    "clicks_pa (bucket ''instagram'' (platformBreakdown perf)) = 0"
    using r p(3) ig by simp_all
  have igr: "ctr_pa (bucket ''instagram'' (platformBreakdown perf)) = Num 0"
    "conversionRate_pa (bucket ''instagram'' (platformBreakdown perf)) = Num 0"
    using r p(3) igb by simp_all
  show ?thesis using e overall rates twb twr fbb fbr igb igr by blast
qed

section \<open>Persistence failures\<close>

lemma getCampaignPerformance_Inr: "\<exists>r. fst (getCampaignPerformance w i) = Inr r"
proof (cases "dbFails w (dbCalls w)")
  case True
  then show ?thesis by (simp add: getCampaignPerformance_failed1)
next
  case ok1: False
  show ?thesis
  proof (cases "filter (\<lambda>c. campaign_id c = i) (campaigns w)")
    case Nil
    then show ?thesis using ok1 by (simp add: getCampaignPerformance_absent)
  next
    case (Cons c cs)
    show ?thesis
    proof (cases "dbFails w (Suc (dbCalls w))")
      case True
      then show ?thesis using ok1 Cons by (simp add: getCampaignPerformance_failed2)
    next
      case False
      then show ?thesis using ok1 Cons by (simp add: getCampaignPerformance_ok)
    qed
  qed
qed

lemma createAdPost_failed:
  "dbFails w (dbCalls w) \<Longrightarrow>
   createAdPost w a =
     (Inl (JsError ''Failed to create ad post''),
      w\<lparr>dbCalls := Suc (dbCalls w), console := console w @ [''Error creating ad post:'']\<rparr>)"
  by (simp add: createAdPost_def dbStatement_def consoleLog_def)

lemma checkAndSchedulePosts_failure_rejects:
  assumes "dbCalls w \<le> k" and "k < dbCalls (snd (checkAndSchedulePosts w))" and "dbFails w k"
  shows "(fst (checkAndSchedulePosts w) = Inl DbFailure
            \<and> console (snd (checkAndSchedulePosts w)) = console w)
         \<or> (fst (checkAndSchedulePosts w) = Inl (JsError ''Failed to create ad post'')
            \<and> console (snd (checkAndSchedulePosts w)) = console w @ [''Error creating ad post:''])"
proof -
  have "fst (checkAndSchedulePosts w) \<noteq> Inr ()"
  proof
    assume "fst (checkAndSchedulePosts w) = Inr ()"
    then have "noFailure w (snd (checkAndSchedulePosts w))" by (rule checkAndSchedulePosts_noFailure)
    then have "\<not> dbFails w k" using assms(1,2) unfolding noFailure_def by blast
    then show False using assms(3) by simp
  qed
  then show ?thesis using checkAndSchedulePosts_outcome [of w] unfolding passOutcome_def by blast
qed

text \<open>
  Claim C8, as the code has it. \<^verbatim>\<open>checkAndSchedulePosts\<close> has no \<^verbatim>\<open>try\<close>: whenever a
  statement it sent to the store failed, it rejects, either with the failure of a read
  and nothing logged, or with the Error \<^verbatim>\<open>Failed to create ad post\<close> that
  \<^verbatim>\<open>createAdPost\<close> throws for a failed insert after its log line.
  \<^verbatim>\<open>getCampaignPerformance\<close> never rejects, and when the read of the campaign fails it
  resolves to \<^verbatim>\<open>null\<close>, the value for an absent campaign, after the log line of
  \<^verbatim>\<open>getCampaignById\<close>.
\<close>

theorem store_failure_propagation:
  "(\<forall>k. dbCalls w \<le> k \<and> k < dbCalls (snd (checkAndSchedulePosts w)) \<and> dbFails w k \<longrightarrow>
        (fst (checkAndSchedulePosts w) = Inl DbFailure
           \<and> console (snd (checkAndSchedulePosts w)) = console w)
        \<or> (fst (checkAndSchedulePosts w) = Inl (JsError ''Failed to create ad post'')
           \<and> console (snd (checkAndSchedulePosts w)) = console w @ [''Error creating ad post:'']))
   \<and> (dbFails w (dbCalls w) \<longrightarrow>
        fst (createAdPost w a) = Inl (JsError ''Failed to create ad post'')
        \<and> console (snd (createAdPost w a)) = console w @ [''Error creating ad post:''])
   \<and> (\<exists>r. fst (getCampaignPerformance w i) = Inr r)
   \<and> (dbFails w (dbCalls w) \<longrightarrow>
        fst (getCampaignPerformance w i) = Inr None
        \<and> console (snd (getCampaignPerformance w i)) = console w @ [''Error getting campaign:''])"
proof -
  have a: "\<forall>k. dbCalls w \<le> k \<and> k < dbCalls (snd (checkAndSchedulePosts w)) \<and> dbFails w k \<longrightarrow>
        (fst (checkAndSchedulePosts w) = Inl DbFailure
           \<and> console (snd (checkAndSchedulePosts w)) = console w)
        \<or> (fst (checkAndSchedulePosts w) = Inl (JsError ''Failed to create ad post'')
           \<and> console (snd (checkAndSchedulePosts w)) = console w @ [''Error creating ad post:''])"
    using checkAndSchedulePosts_failure_rejects [of w] by blast
  have b: "dbFails w (dbCalls w) \<longrightarrow>
        fst (createAdPost w a) = Inl (JsError ''Failed to create ad post'')
        \<and> console (snd (createAdPost w a)) = console w @ [''Error creating ad post:'']"
    by (simp add: createAdPost_failed)
  have c: "\<exists>r. fst (getCampaignPerformance w i) = Inr r" by (rule getCampaignPerformance_Inr)
  have d: "dbFails w (dbCalls w) \<longrightarrow>
        fst (getCampaignPerformance w i) = Inr None
        \<and> console (snd (getCampaignPerformance w i)) = console w @ [''Error getting campaign:'']"
    by (simp add: getCampaignPerformance_failed1)
  show ?thesis using a b c d by blast
qed

text \<open>
  The witness of C8: a store whose third statement, the first insert of the pass, fails,
  and a store that rejects every statement.
\<close>

theorem store_failure_propagation_witness:
  "dbCalls insertFails \<le> 2 \<and> 2 < dbCalls (snd (checkAndSchedulePosts insertFails))
   \<and> dbFails insertFails 2
   \<and> fst (checkAndSchedulePosts insertFails) = Inl (JsError ''Failed to create ad post'')
   \<and> console (snd (checkAndSchedulePosts insertFails)) = [''Error creating ad post:'']
   \<and> dbFails downWorld (dbCalls downWorld)
   \<and> fst (checkAndSchedulePosts downWorld) = Inl DbFailure
   \<and> fst (createAdPost downWorld
        \<lparr>campaignId_ins = 1, platform_ins = ''twitter'', postContent_ins = ''Join us'',
         postTime_ins = 0, status_ins = None, location_ins = None,
         impressions_ins = None, clicks_ins = None, leadsCaptured_ins = None\<rparr>)
       = Inl (JsError ''Failed to create ad post'')
   \<and> fst (getCampaignPerformance downWorld 1) = Inr None
   \<and> console (snd (getCampaignPerformance downWorld 1)) = [''Error getting campaign:'']"
proof -
  have a: "dbCalls insertFails \<le> 2 \<and> 2 < dbCalls (snd (checkAndSchedulePosts insertFails))
     \<and> dbFails insertFails 2"
    by (simp add: run_defs insertFails_def emptyWorld_def baseWorld_def campaign1_def consoleLog_def)
  have c0: "console insertFails = []" "console downWorld = []"
    by (simp_all add: insertFails_def emptyWorld_def downWorld_def baseWorld_def)
  have nd: "fst (checkAndSchedulePosts insertFails) \<noteq> Inl DbFailure"
    by (simp add: run_defs insertFails_def emptyWorld_def baseWorld_def campaign1_def consoleLog_def)
  have d: "dbFails downWorld (dbCalls downWorld)" by (simp add: downWorld_def)
  have e: "fst (checkAndSchedulePosts downWorld) = Inl DbFailure"
    using d by (simp add: checkAndSchedulePosts_failed)
  note t1 = store_failure_propagation [of insertFails _ 1]
  note t2 = store_failure_propagation [of downWorld
        "\<lparr>campaignId_ins = 1, platform_ins = ''twitter'', postContent_ins = ''Join us'',
         postTime_ins = 0, status_ins = None, location_ins = None,
         impressions_ins = None, clicks_ins = None, leadsCaptured_ins = None\<rparr>" 1]
  from t1 a nd have b: "fst (checkAndSchedulePosts insertFails) = Inl (JsError ''Failed to create ad post'')
      \<and> console (snd (checkAndSchedulePosts insertFails)) = console insertFails @ [''Error creating ad post:'']"
    by blast
  from t2 d have f: "fst (createAdPost downWorld
        \<lparr>campaignId_ins = 1, platform_ins = ''twitter'', postContent_ins = ''Join us'',
         postTime_ins = 0, status_ins = None, location_ins = None,
         impressions_ins = None, clicks_ins = None, leadsCaptured_ins = None\<rparr>)
       = Inl (JsError ''Failed to create ad post'')"
    and g: "fst (getCampaignPerformance downWorld 1) = Inr None
        \<and> console (snd (getCampaignPerformance downWorld 1)) = console downWorld @ [''Error getting campaign:'']"
    by blast+
  show ?thesis using a b d e f g unfolding c0 by simp
qed

text \<open>
  Claim C8 as stated fails for the aggregator: with a store that rejects the read of the
  campaign the result is the normal value \<^verbatim>\<open>null\<close>, not a rejection.
\<close>

theorem getCampaignPerformance_swallows_counterexample:
  "dbFails downWorld (dbCalls downWorld)
   \<and> fst (getCampaignPerformance downWorld 1) = Inr None"
proof -
  have d: "dbFails downWorld (dbCalls downWorld)" by (simp add: downWorld_def)
  then show ?thesis by (simp add: getCampaignPerformance_failed1)
qed

section \<open>The life of a post\<close>

lemma keeps_refl [simp]: "keeps S w w"
  by (simp add: keeps_def)

lemma keeps_trans:
  assumes "keeps S w w1" and "keeps S' w1 w2"
  shows "keeps (S \<union> S') w w2"
  unfolding keeps_def
proof (intro conjI allI impI)
  show "length (adPosts w2) = length (adPosts w)"
    using assms unfolding keeps_def by simp
next
  fix j assume j: "j < length (adPosts w)"
  then have j1: "j < length (adPosts w1)" using assms(1) unfolding keeps_def by simp
  show "post_id (adPosts w2 ! j) = post_id (adPosts w ! j)"
    using assms j j1 unfolding keeps_def by simp
next
  fix j assume j: "j < length (adPosts w)" and n: "post_id (adPosts w ! j) \<notin> S \<union> S'"
  then have j1: "j < length (adPosts w1)" using assms(1) unfolding keeps_def by simp
  have a: "adPosts w1 ! j = adPosts w ! j" using assms(1) j n unfolding keeps_def by simp
  then have "post_id (adPosts w1 ! j) \<notin> S'" using n by simp
  then have "adPosts w2 ! j = adPosts w1 ! j" using assms(2) j1 unfolding keeps_def by simp
  then show "adPosts w2 ! j = adPosts w ! j" using a by simp
qed

lemma updateAdPost_keeps: "keeps {i} w (snd (updateAdPost w i d))"
proof (cases "dbFails w (dbCalls w)")
  case True
  then show ?thesis by (simp add: updateAdPost_failed keeps_def)
next
  case False
  then show ?thesis by (simp add: updateAdPost_ok keeps_def)
qed

lemma keeps_beforeUpdate: "keeps S (beforeUpdate w post) w' \<Longrightarrow> keeps S w w'"
  by (simp add: keeps_def)

lemma runSocialPost_keeps: "keeps {post_id post} w (snd (runSocialPost w post))"
  unfolding runSocialPost_try by (rule keeps_beforeUpdate) (rule updateAdPost_keeps)

lemma keeps_mono: "keeps S w w' \<Longrightarrow> S \<subseteq> S' \<Longrightarrow> keeps S' w w'"
  unfolding keeps_def by blast

lemma runAllSocialPosts_keeps:
  "keeps (post_id ` {p \<in> set posts. status p = ''scheduled''}) w (snd (runAllSocialPosts w posts))"
proof (induction posts arbitrary: w)
  case Nil
  then show ?case by simp
next
  case (Cons post posts)
  let ?S = "post_id ` {p \<in> set posts. status p = ''scheduled''}"
  show ?case
  proof (cases "status post = ''scheduled''")
    case True
    let ?w1 = "snd (runSocialPost w post)"
    have "keeps ({post_id post} \<union> ?S) w (snd (runAllSocialPosts ?w1 posts))"
      using runSocialPost_keeps Cons.IH by (rule keeps_trans)
    moreover have "{post_id post} \<union> ?S \<subseteq> post_id ` {p \<in> set (post # posts). status p = ''scheduled''}"
      using True by auto
    ultimately have "keeps (post_id ` {p \<in> set (post # posts). status p = ''scheduled''}) w
        (snd (runAllSocialPosts ?w1 posts))" by (rule keeps_mono)
    then show ?thesis using True by (simp add: runAllSocialPosts_Cons_snd)
  next
    case False
    have "?S \<subseteq> post_id ` {p \<in> set (post # posts). status p = ''scheduled''}" by auto
    with Cons.IH [of w]
    have "keeps (post_id ` {p \<in> set (post # posts). status p = ''scheduled''}) w
        (snd (runAllSocialPosts w posts))" by (rule keeps_mono)
    then show ?thesis using False by (simp add: runAllSocialPosts_Cons_snd)
  qed
qed

lemma runAllSocialPosts_terminal:
  "\<forall>post \<in> set posts. status post \<noteq> ''scheduled'' \<Longrightarrow>
   runAllSocialPosts w posts = (Inr (map Some posts), w)"
  by (induction posts) (simp_all add: runAllSocialPosts_Cons)

lemma checkAndSchedulePosts_appends:
  "\<exists>new. adPosts (snd (checkAndSchedulePosts w)) = adPosts w @ new \<and> (\<forall>row \<in> set new. created row)"
  using checkAndSchedulePosts_grows [of w] unfolding grows_def by blast

text \<open>
  Claim C9, as the code has it: the scheduling pass only appends rows, each in status
  scheduled with zero metrics. \<^verbatim>\<open>runAllSocialPosts\<close> given only posts in status posted
  or failed returns them unchanged and leaves the world as it was; in general it keeps
  the rows of the table in place and changes no row whose id is not that of an input
  post in status scheduled.
\<close>

theorem terminal_posts_kept:
  "(\<exists>new. adPosts (snd (checkAndSchedulePosts w)) = adPosts w @ new
      \<and> (\<forall>row \<in> set new. status row = ''scheduled'' \<and> impressions row = 0 \<and> clicks row = 0
            \<and> leadsCaptured row = 0))
   \<and> ((\<forall>post \<in> set posts. status post = ''posted'' \<or> status post = ''failed'')
        \<longrightarrow> runAllSocialPosts w posts = (Inr (map Some posts), w))
   \<and> length (adPosts (snd (runAllSocialPosts w posts))) = length (adPosts w)
   \<and> (\<forall>j < length (adPosts w).
        post_id (adPosts w ! j) \<notin> post_id ` {p \<in> set posts. status p = ''scheduled''}
        \<longrightarrow> adPosts (snd (runAllSocialPosts w posts)) ! j = adPosts w ! j)"
proof -
  have a: "\<exists>new. adPosts (snd (checkAndSchedulePosts w)) = adPosts w @ new
      \<and> (\<forall>row \<in> set new. status row = ''scheduled'' \<and> impressions row = 0 \<and> clicks row = 0
            \<and> leadsCaptured row = 0)"
    using checkAndSchedulePosts_appends [of w] unfolding created_def by simp
  have b: "(\<forall>post \<in> set posts. status post = ''posted'' \<or> status post = ''failed'')
        \<longrightarrow> runAllSocialPosts w posts = (Inr (map Some posts), w)"
  proof
    assume "\<forall>post \<in> set posts. status post = ''posted'' \<or> status post = ''failed''"
    then have "\<forall>post \<in> set posts. status post \<noteq> ''scheduled''" by auto
    then show "runAllSocialPosts w posts = (Inr (map Some posts), w)"
      by (rule runAllSocialPosts_terminal)
  qed
  have c: "length (adPosts (snd (runAllSocialPosts w posts))) = length (adPosts w)"
    "\<forall>j < length (adPosts w).
        post_id (adPosts w ! j) \<notin> post_id ` {p \<in> set posts. status p = ''scheduled''}
        \<longrightarrow> adPosts (snd (runAllSocialPosts w posts)) ! j = adPosts w ! j"
    using runAllSocialPosts_keeps [of posts w] unfolding keeps_def by simp_all
  show ?thesis using a b c by blast
qed

text \<open>The witness of C9: the posted post is passed, and the scheduled one beside it.\<close>

theorem terminal_posts_kept_witness:
  "status post2 = ''posted''
   \<and> runAllSocialPosts baseWorld [post2] = (Inr [Some post2], baseWorld)
   \<and> post_id (adPosts baseWorld ! 1) \<notin> post_id ` {p \<in> set [post1]. status p = ''scheduled''}
   \<and> adPosts (snd (runAllSocialPosts baseWorld [post1])) ! 1 = post2"
proof -
  have s: "status post2 = ''posted''" by (simp add: post2_def)
  then have h: "\<forall>post \<in> set [post2]. status post = ''posted'' \<or> status post = ''failed''" by simp
  have r: "adPosts baseWorld = [post1, post2]" by (simp add: baseWorld_def)
  have j: "(1::nat) < length (adPosts baseWorld)" unfolding r by simp
  have n: "post_id (adPosts baseWorld ! 1) \<notin> post_id ` {p \<in> set [post1]. status p = ''scheduled''}"
    unfolding r by (auto simp: post1_def post2_def)
  have a: "runAllSocialPosts baseWorld [post2] = (Inr [Some post2], baseWorld)"
    using terminal_posts_kept [of baseWorld "[post2]"] h by simp
  have "adPosts (snd (runAllSocialPosts baseWorld [post1])) ! 1 = adPosts baseWorld ! 1"
    using terminal_posts_kept [of baseWorld "[post1]"] j n by blast
  then have b: "adPosts (snd (runAllSocialPosts baseWorld [post1])) ! 1 = post2" unfolding r by simp
  show ?thesis using s a n b by blast
qed

text \<open>
  Claim C9 as stated fails: \<^verbatim>\<open>runSocialPost\<close> does not look at the status, and called
  on a post that is already posted it writes new metrics over the stored ones.
\<close>

theorem runSocialPost_reruns_posted_counterexample:
  "status post2 = ''posted'' \<and> adPosts baseWorld ! 1 = post2
   \<and> impressions post2 = 500 \<and> clicks post2 = 60 \<and> leadsCaptured post2 = 7
   \<and> post_id (adPosts (snd (runSocialPost baseWorld post2)) ! 1) = post_id post2
   \<and> impressions (adPosts (snd (runSocialPost baseWorld post2)) ! 1) = 700
   \<and> clicks (adPosts (snd (runSocialPost baseWorld post2)) ! 1) = 150
   \<and> leadsCaptured (adPosts (snd (runSocialPost baseWorld post2)) ! 1) = 30"
proof -
  have ok: "\<not> dbFails (beforeUpdate baseWorld post2) (dbCalls (beforeUpdate baseWorld post2))"
    by (simp add: baseWorld_def)
  show ?thesis
    unfolding runSocialPost_try updateAdPost_ok [OF ok]
    by (simp add: baseWorld_def post1_def post2_def postedUpdate_def applyUpdate_def noUpdate_def)
qed

end
